theory Spec2Isabelle
  imports
    Complex_Main
    "HOL-Library.Multiset"
    "HOL-Library.AList"
    "HOL-Library.Char_ord"
    "HOL-Library.List_Lexorder"
begin

section \<open>The paper trader: data model\<close>

text \<open>
  The embedding follows \<^verbatim>\<open>package/paper_trader.py\<close>, class \<^verbatim>\<open>PaperTrader\<close>.

  Numbers. The source computes with Python floats. They are modelled by exact rationals:
  rounding, infinities and NaN are not represented, and a division whose divisor is zero is
  the \<^verbatim>\<open>ZeroDivisionError\<close> that Python raises. Every concrete input used below has
  values on which the float computation of the source is exact or rounds to the stated result.

  Exceptions are values of \<open>py_error\<close>; a function that can raise returns a sum whose
  left injection is the exception.
\<close>

datatype py_error = KeyError | ValueError | ZeroDivisionError | ClientError

text \<open>
  A numeric attribute of a stored trade item, seen through \<^verbatim>\<open>float(...)\<close>: either a
  value on which \<^verbatim>\<open>float\<close> succeeds with the given number, or a value on which it
  raises \<^verbatim>\<open>ValueError\<close>. The parser itself is not modelled.
\<close>

datatype num_attr = Numeric rat | NonNumeric

text \<open>
  An item of the \<^verbatim>\<open>TradingHistory\<close> table, a dictionary in the source. A field is
  \<open>None\<close> when the key is absent from the dictionary. The write-only attributes
  \<^verbatim>\<open>status\<close>, \<^verbatim>\<open>confidence\<close> and \<^verbatim>\<open>predictedChange\<close> are left out.
\<close>

record item =
  tradeId :: "string option"
  t_symbol :: "string option"
  marketType :: "string option"
  action :: "string option"
  quantity :: "num_attr option"
  price :: "num_attr option"
  t_value :: "num_attr option"
  timestamp :: "string option"
  entryPrice :: "num_attr option"
  pnl :: "num_attr option"
  pnlPercent :: "num_attr option"
  exitReason :: "string option"
  walletBalanceBefore :: "num_attr option"
  walletBalanceAfter :: "num_attr option"
  originalTradeId :: "string option"

text \<open>An entry of \<^verbatim>\<open>self.portfolio\<close>.\<close>

record position =
  p_quantity :: rat
  entry_price :: rat
  entry_time :: string
  trade_id :: string
  market_type :: string

text \<open>
  The mutable part of a \<^verbatim>\<open>PaperTrader\<close>. The portfolio dictionary is an association
  list in insertion order, as a Python \<^verbatim>\<open>dict\<close> iterates: \<open>AList.update\<close> replaces
  the value of a present key in place and appends an absent key, \<open>AList.delete\<close> is
  \<^verbatim>\<open>del\<close>. \<open>trading_table\<close> holds the items that \<^verbatim>\<open>put_item\<close> has stored, oldest
  first, and \<open>tick\<close> counts the trades built so far: it indexes the environment below.
\<close>

record trader =
  portfolio :: "(string \<times> position) list"
  wallet_balance :: rat
  trading_table :: "item list"
  tick :: nat

text \<open>
  What the outside world answers to the \<open>n\<close>-th trade that is built: the identifier
  \<^verbatim>\<open>uuid.uuid4()\<close> returns, the instant \<^verbatim>\<open>datetime.utcnow().isoformat()\<close> returns
  (one instant for both reads of the clock inside one call) and whether
  \<^verbatim>\<open>trading_table.put_item\<close> raises.
\<close>

record env =
  uuid4 :: "nat \<Rightarrow> string"
  utcnow :: "nat \<Rightarrow> string"
  put_item_raises :: "nat \<Rightarrow> bool"

text \<open>The trading parameters set in \<^verbatim>\<open>__init__\<close>.\<close>

definition max_position_size :: rat where
  "max_position_size = 2 / 10"

definition stop_loss_pct :: rat where
  "stop_loss_pct = 5 / 100"

definition take_profit_pct :: rat where
  "take_profit_pct = 10 / 100"

definition min_confidence :: rat where
  "min_confidence = 6 / 10"

section \<open>Replaying the ledger: \<^verbatim>\<open>load_portfolio_state\<close>\<close>

text \<open>\<^verbatim>\<open>float(trade[k])\<close>: a missing key raises \<^verbatim>\<open>KeyError\<close>.\<close>

fun py_float :: "num_attr option \<Rightarrow> py_error + rat" where
  "py_float None = Inl KeyError"
| "py_float (Some NonNumeric) = Inl ValueError"
| "py_float (Some (Numeric r)) = Inr r"

text \<open>
  \<^verbatim>\<open>sorted(trades, key=lambda x: x['timestamp'])\<close>. Python computes the key of every
  element first, so one item without a timestamp raises \<^verbatim>\<open>KeyError\<close>; then it sorts
  the items by key alone, stably. \<open>sort_key\<close> is a stable insertion sort, and strings
  are compared lexicographically character by character.
\<close>

fun timestamp_keys :: "item list \<Rightarrow> py_error + (string \<times> item) list" where
  "timestamp_keys [] = Inr []"
| "timestamp_keys (t # ts) =
     (case timestamp t of
        None \<Rightarrow> Inl KeyError
      | Some k \<Rightarrow> (case timestamp_keys ts of
                    Inl e \<Rightarrow> Inl e
                  | Inr kts \<Rightarrow> Inr ((k, t) # kts)))"

definition sorted_trades :: "item list \<Rightarrow> py_error + item list" where
  "sorted_trades trades =
     (case timestamp_keys trades of
        Inl e \<Rightarrow> Inl e
      | Inr kts \<Rightarrow> Inr (map snd (sort_key fst kts)))"

text \<open>\<^verbatim>\<open>symbol in self.portfolio\<close>.\<close>

definition holds :: "(string \<times> position) list \<Rightarrow> string \<Rightarrow> bool" where
  "holds pf symbol \<longleftrightarrow> map_of pf symbol \<noteq> None"

text \<open>The body of the replay loop, on one trade.\<close>

definition replay_trade :: "item \<Rightarrow> trader \<Rightarrow> py_error + trader" where
  "replay_trade trade s =
     (case t_symbol trade of None \<Rightarrow> Inl KeyError | Some symbol \<Rightarrow>
     (case action trade of None \<Rightarrow> Inl KeyError | Some act \<Rightarrow>
     (case py_float (quantity trade) of Inl e \<Rightarrow> Inl e | Inr q \<Rightarrow>
     (case py_float (price trade) of Inl e \<Rightarrow> Inl e | Inr p \<Rightarrow>
        if act = ''BUY'' then
          (case timestamp trade of None \<Rightarrow> Inl KeyError | Some ts \<Rightarrow>
          (case tradeId trade of None \<Rightarrow> Inl KeyError | Some tid \<Rightarrow>
             Inr (s\<lparr>portfolio := AList.update symbol
                       \<lparr>p_quantity = q, entry_price = p, entry_time = ts, trade_id = tid,
                        market_type = (case marketType trade of None \<Rightarrow> ''unknown'' | Some m \<Rightarrow> m)\<rparr>
                       (portfolio s),
                    wallet_balance := wallet_balance s - p * q\<rparr>)))
        else if act = ''SELL'' \<and> holds (portfolio s) symbol then
          Inr (s\<lparr>portfolio := AList.delete symbol (portfolio s),
                 wallet_balance := wallet_balance s + p * q\<rparr>)
        else Inr s))))"

fun replay :: "item list \<Rightarrow> trader \<Rightarrow> py_error + trader" where
  "replay [] s = Inr s"
| "replay (trade # trades) s =
     (case replay_trade trade s of
        Inl e \<Rightarrow> Inl e
      | Inr s' \<Rightarrow> replay trades s')"

text \<open>
  \<^verbatim>\<open>load_portfolio_state\<close>. \<open>INITIAL_BALANCE\<close> is the module constant read from the
  environment variable \<^verbatim>\<open>INITIAL_WALLET_BALANCE\<close>, and \<open>scan\<close> is what
  \<^verbatim>\<open>trading_table.scan\<close> answers for the thirty-day window: the items, or an exception.
  Whatever is raised inside the \<^verbatim>\<open>try\<close> block is caught, and the handler resets the
  wallet and the portfolio.
\<close>

definition initial_state :: "rat \<Rightarrow> trader \<Rightarrow> trader" where
  "initial_state INITIAL_BALANCE s = s\<lparr>portfolio := [], wallet_balance := INITIAL_BALANCE\<rparr>"

definition load_portfolio_state :: "rat \<Rightarrow> py_error + item list \<Rightarrow> trader \<Rightarrow> trader" where
  "load_portfolio_state INITIAL_BALANCE scan s =
     (case scan of
        Inl e \<Rightarrow> initial_state INITIAL_BALANCE s
      | Inr trades \<Rightarrow>
          (case sorted_trades trades of
             Inl e \<Rightarrow> initial_state INITIAL_BALANCE s
           | Inr ordered \<Rightarrow>
               (case replay ordered (initial_state INITIAL_BALANCE s) of
                  Inl e \<Rightarrow> initial_state INITIAL_BALANCE s
                | Inr s' \<Rightarrow> s')))"

section \<open>Trading: \<^verbatim>\<open>should_trade\<close>, \<^verbatim>\<open>execute_trade\<close>, \<^verbatim>\<open>close_position\<close>\<close>

text \<open>
  A prediction, as \<^verbatim>\<open>predict_crypto_prices\<close> and \<^verbatim>\<open>predict_forex_prices\<close> build
  it. Both set \<^verbatim>\<open>signal\<close> to one of three strings. The fields that only feed the
  left-out attribute \<^verbatim>\<open>predictedChange\<close> are not modelled.
\<close>

datatype signal = BUY | SELL | HOLD

record prediction =
  p_symbol :: string
  p_market_type :: string
  current_price :: rat
  confidence :: rat
  signal :: signal

text \<open>An entry of \<^verbatim>\<open>crypto_data\<close> or \<^verbatim>\<open>forex_data\<close>, with the two keys that are read.\<close>

record market_data =
  d_symbol :: string
  d_price :: rat

definition should_trade :: "prediction \<Rightarrow> trader \<Rightarrow> bool" where
  "should_trade prediction s =
     (if confidence prediction < min_confidence then False
      else if signal prediction = HOLD then False
      else if signal prediction = SELL then False
      else if wallet_balance s * max_position_size < 1 then False
      else if holds (portfolio s) (p_symbol prediction) then False
      else True)"

text \<open>
  \<^verbatim>\<open>execute_trade\<close> returns its boolean and the state it leaves behind. Its body is one
  \<^verbatim>\<open>try\<close> block whose handler logs and returns \<^verbatim>\<open>False\<close>, so an exception keeps
  every assignment made before it:
  \<^item> a division by a zero price (BUY) or a zero entry price (SELL) raises before anything
    is assigned (the operands are taken to be Python floats; a numpy confidence would
    turn the first division into an infinity, which the rationals do not represent);
  \<^item> \<^verbatim>\<open>put_item\<close> is the last statement before \<^verbatim>\<open>return True\<close>, after the
    portfolio and the wallet have been assigned.
\<close>

definition execute_trade :: "env \<Rightarrow> prediction \<Rightarrow> trader \<Rightarrow> bool \<times> trader" where
  "execute_trade e prediction s =
     (let symbol = p_symbol prediction;
          base_position_size = wallet_balance s * max_position_size;
          position_size = base_position_size * confidence prediction
      in
      if signal prediction = BUY then
        (if current_price prediction = 0 then (False, s)
         else
           let qty = position_size / current_price prediction;
               new_id = uuid4 e (tick s);
               now = utcnow e (tick s);
               s1 = s\<lparr>portfolio := AList.update symbol
                          \<lparr>p_quantity = qty, entry_price = current_price prediction,
                           entry_time = now, trade_id = new_id,
                           market_type = p_market_type prediction\<rparr>
                          (portfolio s),
                       wallet_balance := wallet_balance s - position_size,
                       tick := Suc (tick s)\<rparr>;
               trade = \<lparr>tradeId = Some new_id, t_symbol = Some symbol,
                        marketType = Some (p_market_type prediction), action = Some ''BUY'',
                        quantity = Some (Numeric qty),
                        price = Some (Numeric (current_price prediction)),
                        t_value = Some (Numeric position_size), timestamp = Some now,
                        entryPrice = None, pnl = None, pnlPercent = None, exitReason = None,
                        walletBalanceBefore = Some (Numeric (wallet_balance s)),
                        walletBalanceAfter = Some (Numeric (wallet_balance s1)),
                        originalTradeId = None\<rparr>
           in if put_item_raises e (tick s) then (False, s1)
              else (True, s1\<lparr>trading_table := trading_table s1 @ [trade]\<rparr>))
      else if signal prediction = SELL \<and> holds (portfolio s) symbol then
        (case map_of (portfolio s) symbol of
           None \<Rightarrow> (False, s)
         | Some position \<Rightarrow>
             if entry_price position = 0 then (False, s)
             else
               let qty = p_quantity position;
                   profit = (current_price prediction - entry_price position) * qty;
                   profit_pct =
                     ((current_price prediction - entry_price position) / entry_price position) * 100;
                   new_id = uuid4 e (tick s);
                   now = utcnow e (tick s);
                   s1 = s\<lparr>portfolio := AList.delete symbol (portfolio s),
                           wallet_balance := wallet_balance s + current_price prediction * qty,
                           tick := Suc (tick s)\<rparr>;
                   trade = \<lparr>tradeId = Some new_id, t_symbol = Some symbol,
                            marketType = Some (p_market_type prediction), action = Some ''SELL'',
                            quantity = Some (Numeric qty),
                            price = Some (Numeric (current_price prediction)),
                            t_value = Some (Numeric (current_price prediction * qty)),
                            timestamp = Some now,
                            entryPrice = Some (Numeric (entry_price position)),
                            pnl = Some (Numeric profit), pnlPercent = Some (Numeric profit_pct),
                            exitReason = None,
                            walletBalanceBefore = Some (Numeric (wallet_balance s)),
                            walletBalanceAfter = Some (Numeric (wallet_balance s1)),
                            originalTradeId = Some (trade_id position)\<rparr>
               in if put_item_raises e (tick s) then (False, s1)
                  else (True, s1\<lparr>trading_table := trading_table s1 @ [trade]\<rparr>))
      else (False, s))"

text \<open>
  \<^verbatim>\<open>close_position\<close> returns nothing; its handler logs. The exceptions are those of the
  SELL branch above.
\<close>

definition close_position :: "env \<Rightarrow> string \<Rightarrow> rat \<Rightarrow> string \<Rightarrow> trader \<Rightarrow> trader" where
  "close_position e symbol cur_price reason s =
     (case map_of (portfolio s) symbol of
        None \<Rightarrow> s
      | Some position \<Rightarrow>
          if entry_price position = 0 then s
          else
            let qty = p_quantity position;
                profit = (cur_price - entry_price position) * qty;
                profit_pct = ((cur_price - entry_price position) / entry_price position) * 100;
                new_id = uuid4 e (tick s);
                now = utcnow e (tick s);
                s1 = s\<lparr>portfolio := AList.delete symbol (portfolio s),
                        wallet_balance := wallet_balance s + cur_price * qty,
                        tick := Suc (tick s)\<rparr>;
                trade = \<lparr>tradeId = Some new_id, t_symbol = Some symbol,
                         marketType = Some (market_type position), action = Some ''SELL'',
                         quantity = Some (Numeric qty), price = Some (Numeric cur_price),
                         t_value = Some (Numeric (cur_price * qty)), timestamp = Some now,
                         entryPrice = Some (Numeric (entry_price position)),
                         pnl = Some (Numeric profit), pnlPercent = Some (Numeric profit_pct),
                         exitReason = Some reason,
                         walletBalanceBefore = Some (Numeric (wallet_balance s)),
                         walletBalanceAfter = Some (Numeric (wallet_balance s1)),
                         originalTradeId = Some (trade_id position)\<rparr>
            in if put_item_raises e (tick s) then s1
               else s1\<lparr>trading_table := trading_table s1 @ [trade]\<rparr>)"

section \<open>The risk monitor: \<^verbatim>\<open>check_exit_conditions\<close>\<close>

text \<open>
  \<^verbatim>\<open>{item['symbol']: item for item in crypto_data + forex_data}\<close>: a later entry for
  a symbol replaces an earlier one.
\<close>

definition all_data_of :: "market_data list \<Rightarrow> (string \<rightharpoonup> market_data)" where
  "all_data_of ds = fold (\<lambda>d m. m(d_symbol d \<mapsto> d)) ds Map.empty"

text \<open>
  The first loop, over \<^verbatim>\<open>self.portfolio.items()\<close>. It assigns nothing to the trader.
  The division by the entry price is outside any \<^verbatim>\<open>try\<close>: a zero entry price raises
  out of \<^verbatim>\<open>check_exit_conditions\<close>.
\<close>

fun symbols_to_close ::
  "(string \<rightharpoonup> market_data) \<Rightarrow> (string \<times> position) list \<Rightarrow> py_error + (string \<times> rat \<times> string) list"
where
  "symbols_to_close all_data [] = Inr []"
| "symbols_to_close all_data ((symbol, position) # rest) =
     (case all_data symbol of
        None \<Rightarrow> symbols_to_close all_data rest
      | Some d \<Rightarrow>
          if entry_price position = 0 then Inl ZeroDivisionError
          else
            let pnl_pct = (d_price d - entry_price position) / entry_price position
            in (case symbols_to_close all_data rest of
                  Inl err \<Rightarrow> Inl err
                | Inr closing \<Rightarrow>
                    if pnl_pct \<le> - stop_loss_pct
                    then Inr ((symbol, d_price d, ''STOP_LOSS'') # closing)
                    else if pnl_pct \<ge> take_profit_pct
                    then Inr ((symbol, d_price d, ''TAKE_PROFIT'') # closing)
                    else Inr closing))"

text \<open>The second loop.\<close>

fun close_all :: "env \<Rightarrow> (string \<times> rat \<times> string) list \<Rightarrow> trader \<Rightarrow> trader" where
  "close_all e [] s = s"
| "close_all e ((symbol, cur_price, reason) # closing) s =
     close_all e closing (close_position e symbol cur_price reason s)"

definition check_exit_conditions ::
  "env \<Rightarrow> market_data list \<Rightarrow> market_data list \<Rightarrow> trader \<Rightarrow> py_error + trader"
where
  "check_exit_conditions e crypto_data forex_data s =
     (case symbols_to_close (all_data_of (crypto_data @ forex_data)) (portfolio s) of
        Inl err \<Rightarrow> Inl err
      | Inr closing \<Rightarrow> Inr (close_all e closing s))"

section \<open>The session: \<^verbatim>\<open>execute_trading_session\<close>\<close>

text \<open>Phase 1, the loop over the predictions that executes the exits the model asks for.\<close>

fun phase1_exits :: "env \<Rightarrow> prediction list \<Rightarrow> nat \<times> trader \<Rightarrow> nat \<times> trader" where
  "phase1_exits e [] (n, s) = (n, s)"
| "phase1_exits e (p # ps) (n, s) =
     (if holds (portfolio s) (p_symbol p) \<and> signal p = SELL then
        (if confidence p \<ge> min_confidence then
           (case execute_trade e p s of
              (trade_executed, s') \<Rightarrow>
                phase1_exits e ps (if trade_executed then n + 1 else n, s'))
         else phase1_exits e ps (n, s))
      else phase1_exits e ps (n, s))"

text \<open>Phase 2, the loop that opens new positions.\<close>

fun phase2_entries :: "env \<Rightarrow> prediction list \<Rightarrow> nat \<times> trader \<Rightarrow> nat \<times> trader" where
  "phase2_entries e [] (n, s) = (n, s)"
| "phase2_entries e (p # ps) (n, s) =
     (if should_trade p s then
        (case execute_trade e p s of
           (trade_executed, s') \<Rightarrow>
             phase2_entries e ps (if trade_executed then n + 1 else n, s'))
      else phase2_entries e ps (n, s))"

text \<open>
  The trading part of \<^verbatim>\<open>execute_trading_session\<close>, from the state that
  \<^verbatim>\<open>load_portfolio_state\<close> left. The predictions are an input: they come from the
  trained models. The result is the trader afterwards and either the exception that
  left the session (the one \<^verbatim>\<open>lambda_handler\<close> turns into status 500) or
  \<^verbatim>\<open>trades_executed\<close>. The valuations that the source adds to its result
  (\<^verbatim>\<open>portfolio_value\<close>, \<^verbatim>\<open>total_pnl\<close>) read the trader and change nothing; they
  are not modelled.
\<close>

definition trading_phases ::
  "env \<Rightarrow> market_data list \<Rightarrow> market_data list \<Rightarrow> prediction list \<Rightarrow> trader
     \<Rightarrow> (py_error + nat) \<times> trader"
where
  "trading_phases e crypto_data forex_data all_predictions s =
     (case phase1_exits e all_predictions (0, s) of
        (n1, s1) \<Rightarrow>
          (case check_exit_conditions e crypto_data forex_data s1 of
             Inl err \<Rightarrow> (Inl err, s1)
           | Inr s2 \<Rightarrow>
               (case phase2_entries e all_predictions (n1, s2) of
                  (n2, s3) \<Rightarrow> (Inr n2, s3))))"

text \<open>
  \<open>model_loaded\<close> is what \<^verbatim>\<open>load_latest_model\<close> returned; without a model the
  session returns after the replay.
\<close>

definition execute_trading_session ::
  "env \<Rightarrow> rat \<Rightarrow> py_error + item list \<Rightarrow> bool \<Rightarrow> market_data list \<Rightarrow> market_data list
     \<Rightarrow> prediction list \<Rightarrow> trader \<Rightarrow> (py_error + nat) \<times> trader"
where
  "execute_trading_session e INITIAL_BALANCE scan model_loaded crypto_data forex_data
      all_predictions s =
     (let s0 = load_portfolio_state INITIAL_BALANCE scan s
      in if \<not> model_loaded then (Inr 0, s0)
         else trading_phases e crypto_data forex_data all_predictions s0)"

section \<open>Notions used to state the properties\<close>

text \<open>
  The value of a ledger record, \<open>price \<times> quantity\<close> as the replay computes it, and the
  totals over the BUY records and over the SELL records of a window.
\<close>

definition value_of :: "item \<Rightarrow> rat" where
  "value_of t =
     (case py_float (price t) of Inl e \<Rightarrow> 0 | Inr p \<Rightarrow>
     (case py_float (quantity t) of Inl e \<Rightarrow> 0 | Inr q \<Rightarrow> p * q))"

definition buy_total :: "item list \<Rightarrow> rat" where
  "buy_total ts = sum_list (map value_of (filter (\<lambda>t. action t = Some ''BUY'') ts))"

definition sell_total :: "item list \<Rightarrow> rat" where
  "sell_total ts = sum_list (map value_of (filter (\<lambda>t. action t = Some ''SELL'') ts))"

text \<open>
  A record the loop body can read: symbol and action present, quantity and price
  numeric, and for a BUY also the timestamp and the trade identifier.
\<close>

definition readable :: "item \<Rightarrow> bool" where
  "readable t \<longleftrightarrow>
     t_symbol t \<noteq> None \<and> action t \<noteq> None \<and>
     (\<exists>q. quantity t = Some (Numeric q)) \<and> (\<exists>p. price t = Some (Numeric p)) \<and>
     (action t = Some ''BUY'' \<longrightarrow> timestamp t \<noteq> None \<and> tradeId t \<noteq> None)"

text \<open>
  A symbol is open after the records \<open>seen\<close> when the last BUY or SELL record of that
  symbol among them is a BUY.
\<close>

definition open_after :: "item list \<Rightarrow> string \<Rightarrow> bool" where
  "open_after seen symbol =
     (let ys = filter (\<lambda>t. t_symbol t = Some symbol \<and>
                            (action t = Some ''BUY'' \<or> action t = Some ''SELL'')) seen
      in ys \<noteq> [] \<and> action (last ys) = Some ''BUY'')"

text \<open>What one record debits and credits, given the records before it.\<close>

definition debit :: "item \<Rightarrow> rat" where
  "debit t = (if action t = Some ''BUY'' then value_of t else 0)"

definition credit :: "item list \<Rightarrow> item \<Rightarrow> rat" where
  "credit seen t =
     (if action t = Some ''SELL'' \<and>
         (case t_symbol t of None \<Rightarrow> False | Some symbol \<Rightarrow> open_after seen symbol)
      then value_of t else 0)"

text \<open>The total value of the SELL records whose symbol is open at their turn.\<close>

fun credited_sells :: "item list \<Rightarrow> item list \<Rightarrow> rat" where
  "credited_sells seen [] = 0"
| "credited_sells seen (t # ts) = credit seen t + credited_sells (seen @ [t]) ts"

section \<open>Concrete ledgers and sessions\<close>

text \<open>A complete ledger record of a BUY or a SELL, for stating concrete windows.\<close>

definition ledger_record :: "string \<Rightarrow> string \<Rightarrow> string \<Rightarrow> rat \<Rightarrow> rat \<Rightarrow> string \<Rightarrow> item" where
  "ledger_record tid symbol act q p ts =
     \<lparr>tradeId = Some tid, t_symbol = Some symbol, marketType = Some ''crypto'',
      action = Some act, quantity = Some (Numeric q), price = Some (Numeric p),
      t_value = Some (Numeric (p * q)), timestamp = Some ts, entryPrice = None, pnl = None,
      pnlPercent = None, exitReason = None, walletBalanceBefore = None,
      walletBalanceAfter = None, originalTradeId = None\<rparr>"

definition fresh_trader :: trader where
  "fresh_trader = \<lparr>portfolio = [], wallet_balance = 50, trading_table = [], tick = 0\<rparr>"

definition sol_sell_only :: "item list" where
  "sol_sell_only = [ledger_record ''t-1'' ''SOL'' ''SELL'' 1 2 ''2026-10-01T10:00:00'']"

definition mixed_window :: "item list" where
  "mixed_window =
     [ledger_record ''t-2'' ''SOL'' ''SELL'' 1 3 ''2026-10-02T10:00:00'',
      ledger_record ''t-1'' ''SOL'' ''BUY'' 1 2 ''2026-10-01T10:00:00'',
      ledger_record ''t-3'' ''ETH'' ''SELL'' 1 5 ''2026-10-03T10:00:00'']"

definition mixed_window_sorted :: "item list" where
  "mixed_window_sorted =
     [ledger_record ''t-1'' ''SOL'' ''BUY'' 1 2 ''2026-10-01T10:00:00'',
      ledger_record ''t-2'' ''SOL'' ''SELL'' 1 3 ''2026-10-02T10:00:00'',
      ledger_record ''t-3'' ''ETH'' ''SELL'' 1 5 ''2026-10-03T10:00:00'']"

definition double_buy :: "item list" where
  "double_buy =
     [ledger_record ''t-1'' ''SOL'' ''BUY'' 1 2 ''2026-10-01T10:00:00'',
      ledger_record ''t-2'' ''SOL'' ''BUY'' 2 4 ''2026-10-02T10:00:00'']"

definition btc_buy :: item where
  "btc_buy = ledger_record ''t-1'' ''BTC'' ''BUY'' 1 2 ''2026-10-01T10:00:00''"

definition corrupt_eth_buy :: item where
  "corrupt_eth_buy =
     (ledger_record ''t-2'' ''ETH'' ''BUY'' 1 4 ''2026-10-02T10:00:00'')\<lparr>quantity := Some NonNumeric\<rparr>"

definition sol_buy_noon :: item where
  "sol_buy_noon = ledger_record ''t-1'' ''SOL'' ''BUY'' 1 2 ''2026-10-01T12:00:00''"

definition sol_sell_noon :: item where
  "sol_sell_noon = ledger_record ''t-2'' ''SOL'' ''SELL'' 1 3 ''2026-10-01T12:00:00''"

text \<open>
  An environment whose store accepts every write, one whose store fails every write,
  and the BUY prediction of the sizing scenario: BTC at 45000 with confidence 0.8.
\<close>

definition calm_env :: env where
  "calm_env = \<lparr>uuid4 = (\<lambda>n. ''id-'' @ replicate n CHR ''x''),
               utcnow = (\<lambda>n. ''2026-11-01T00:00:00''),
               put_item_raises = (\<lambda>n. False)\<rparr>"

definition failing_env :: env where
  "failing_env = calm_env\<lparr>put_item_raises := (\<lambda>n. True)\<rparr>"

definition btc_buy_signal :: prediction where
  "btc_buy_signal =
     \<lparr>p_symbol = ''BTC'', p_market_type = ''crypto'', current_price = 45000,
      confidence = 8 / 10, signal = BUY\<rparr>"

text \<open>
  Every open position has a non-negative quantity; and the trader has not been
  overdrawn since the ledger held \<open>m\<close> records: the wallet is non-negative now,
  and so is the balance that each record stored since then reports after its trade.
\<close>

definition quantities_nonneg :: "(string \<times> position) list \<Rightarrow> bool" where
  "quantities_nonneg pf = list_all (\<lambda>(k, pos). 0 \<le> p_quantity pos) pf"

definition after_nonneg :: "item \<Rightarrow> bool" where
  "after_nonneg r = (case walletBalanceAfter r of Some (Numeric w) \<Rightarrow> 0 \<le> w | _ \<Rightarrow> True)"

definition never_overdrawn :: "nat \<Rightarrow> trader \<Rightarrow> bool" where
  "never_overdrawn m s \<longleftrightarrow>
     0 \<le> wallet_balance s \<and> list_all after_nonneg (drop m (trading_table s))"

text \<open>A session with one open position, one exit and one entry.\<close>

definition eth_holder :: trader where
  "eth_holder =
     \<lparr>portfolio = [(''ETH'', \<lparr>p_quantity = 2, entry_price = 10,
                     entry_time = ''2026-10-20T09:00:00'', trade_id = ''t-0'',
                     market_type = ''crypto''\<rparr>)],
      wallet_balance = 30, trading_table = [], tick = 0\<rparr>"

definition eth_sell_signal :: prediction where
  "eth_sell_signal =
     \<lparr>p_symbol = ''ETH'', p_market_type = ''crypto'', current_price = 12,
      confidence = 7 / 10, signal = SELL\<rparr>"

definition session_quotes :: "market_data list" where
  "session_quotes = [\<lparr>d_symbol = ''BTC'', d_price = 45000\<rparr>, \<lparr>d_symbol = ''ETH'', d_price = 12\<rparr>]"

text \<open>A trader that holds ETH, which \<open>session_quotes\<close> quotes, and SOL, which it does not.\<close>

definition eth_sol_holder :: trader where
  "eth_sol_holder =
     \<lparr>portfolio = [(''ETH'', \<lparr>p_quantity = 2, entry_price = 10,
                     entry_time = ''2026-10-20T09:00:00'', trade_id = ''t-0'',
                     market_type = ''crypto''\<rparr>),
                   (''SOL'', \<lparr>p_quantity = 3, entry_price = 100,
                     entry_time = ''2026-10-21T09:00:00'', trade_id = ''t-1'',
                     market_type = ''crypto''\<rparr>)],
      wallet_balance = 30, trading_table = [], tick = 0\<rparr>"

definition sol_holder :: trader where
  "sol_holder =
     \<lparr>portfolio = [(''SOL'', \<lparr>p_quantity = 3, entry_price = 100,
                     entry_time = ''2026-10-21T09:00:00'', trade_id = ''t-1'',
                     market_type = ''crypto''\<rparr>)],
      wallet_balance = 30, trading_table = [], tick = 0\<rparr>"

text \<open>The SELL records of a symbol in the ledger.\<close>

definition sells_of :: "string \<Rightarrow> item list \<Rightarrow> item list" where
  "sells_of k tbl = filter (\<lambda>r. t_symbol r = Some k \<and> action r = Some ''SELL'') tbl"

section \<open>Balance after replay\<close>

lemma py_float_Inr: "py_float a = Inr r \<longleftrightarrow> a = Some (Numeric r)"
  by (cases a rule: py_float.cases) auto

lemma py_float_Inl: "(\<exists>e. py_float a = Inl e) \<longleftrightarrow> (\<forall>r. a \<noteq> Some (Numeric r))"
  by (cases a rule: py_float.cases) auto

text \<open>The three ways the loop body returns, and the one way it raises.\<close>

lemma replay_trade_buy:
  assumes "t_symbol t = Some k" "action t = Some ''BUY''"
    "quantity t = Some (Numeric q)" "price t = Some (Numeric p)"
    "timestamp t = Some ts" "tradeId t = Some tid"
  shows "replay_trade t s =
     Inr (s\<lparr>portfolio := AList.update k
               \<lparr>p_quantity = q, entry_price = p, entry_time = ts, trade_id = tid,
                market_type = (case marketType t of None \<Rightarrow> ''unknown'' | Some m \<Rightarrow> m)\<rparr>
               (portfolio s),
            wallet_balance := wallet_balance s - p * q\<rparr>)"
  using assms by (simp add: replay_trade_def)

lemma replay_trade_sell:
  assumes "t_symbol t = Some k" "action t = Some ''SELL''"
    "quantity t = Some (Numeric q)" "price t = Some (Numeric p)"
  shows "replay_trade t s =
     (if holds (portfolio s) k
      then Inr (s\<lparr>portfolio := AList.delete k (portfolio s),
                  wallet_balance := wallet_balance s + p * q\<rparr>)
      else Inr s)"
  using assms by (simp add: replay_trade_def)

lemma replay_trade_other:
  assumes "t_symbol t = Some k" "action t = Some a" "a \<noteq> ''BUY''" "a \<noteq> ''SELL''"
    "quantity t = Some (Numeric q)" "price t = Some (Numeric p)"
  shows "replay_trade t s = Inr s"
  using assms by (simp add: replay_trade_def)

lemma replay_trade_unreadable:
  assumes "\<not> readable t"
  shows "\<exists>e. replay_trade t s = Inl e"
proof (cases "t_symbol t")
  case None
  then show ?thesis by (simp add: replay_trade_def)
next
  case (Some k)
  note k = this
  show ?thesis
  proof (cases "action t")
    case None
    with k show ?thesis by (simp add: replay_trade_def)
  next
    case (Some a)
    note a = this
    show ?thesis
    proof (cases "py_float (quantity t)")
      case (Inl e)
      with k a show ?thesis by (simp add: replay_trade_def)
    next
      case (Inr q)
      note q = this
      show ?thesis
      proof (cases "py_float (price t)")
        case (Inl e)
        with k a q show ?thesis by (simp add: replay_trade_def)
      next
        case (Inr p)
        with assms k a q have buy: "a = ''BUY''" and miss: "timestamp t = None \<or> tradeId t = None"
          by (auto simp: readable_def py_float_Inr)
        from miss show ?thesis
        proof
          assume "timestamp t = None"
          with k a q Inr buy show ?thesis by (simp add: replay_trade_def)
        next
          assume "tradeId t = None"
          with k a q Inr buy show ?thesis
            by (cases "timestamp t") (simp_all add: replay_trade_def)
        qed
      qed
    qed
  qed
qed


lemma readable_cases:
  assumes "readable t"
  obtains
    (buy) k q p ts tid where "t_symbol t = Some k" "action t = Some ''BUY''"
      "quantity t = Some (Numeric q)" "price t = Some (Numeric p)"
      "timestamp t = Some ts" "tradeId t = Some tid"
  | (sell) k q p where "t_symbol t = Some k" "action t = Some ''SELL''"
      "quantity t = Some (Numeric q)" "price t = Some (Numeric p)"
  | (other) k a q p where "t_symbol t = Some k" "action t = Some a"
      "a \<noteq> ''BUY''" "a \<noteq> ''SELL''"
      "quantity t = Some (Numeric q)" "price t = Some (Numeric p)"
proof -
  from assms obtain k a q p where f: "t_symbol t = Some k" "action t = Some a"
      "quantity t = Some (Numeric q)" "price t = Some (Numeric p)"
    by (auto simp: readable_def)
  show thesis
  proof (cases "a = ''BUY''")
    case True
    with assms f obtain ts tid where "timestamp t = Some ts" "tradeId t = Some tid"
      by (auto simp: readable_def)
    with f True show thesis by (auto intro: buy)
  next
    case False
    show thesis
    proof (cases "a = ''SELL''")
      case True
      with f show thesis by (auto intro: sell)
    next
      case False
      with \<open>a \<noteq> ''BUY''\<close> f show thesis by (auto intro: other)
    qed
  qed
qed

lemma replay_trade_readable:
  assumes "readable t"
  shows "\<exists>s'. replay_trade t s = Inr s'"
  using assms
  by (cases t rule: readable_cases)
     (simp_all add: replay_trade_buy replay_trade_sell replay_trade_other)

lemma open_after_snoc:
  "open_after (seen @ [t]) k =
     (if t_symbol t = Some k \<and> action t = Some ''BUY'' then True
      else if t_symbol t = Some k \<and> action t = Some ''SELL'' then False
      else open_after seen k)"
  by (auto simp: open_after_def Let_def)

lemma holds_update:
  "holds (AList.update k v al) k' = (k' = k \<or> holds al k')"
  by (simp add: holds_def update_conv')

lemma holds_delete:
  "holds (AList.delete k al) k' = (k' \<noteq> k \<and> holds al k')"
  by (simp add: holds_def delete_conv')

lemma value_of_numeric:
  "quantity t = Some (Numeric q) \<Longrightarrow> price t = Some (Numeric p) \<Longrightarrow> value_of t = p * q"
  by (simp add: value_of_def)

lemma replay_trade_step:
  assumes r: "replay_trade t s = Inr s'"
      and inv: "\<And>k. holds (portfolio s) k = open_after seen k"
  shows "(\<forall>k. holds (portfolio s') k = open_after (seen @ [t]) k) \<and>
         wallet_balance s' = wallet_balance s - debit t + credit seen t"
proof -
  have "readable t"
    using r replay_trade_unreadable[of t s] by auto
  then show ?thesis
  proof (cases t rule: readable_cases)
    case (buy k q p ts tid)
    have s': "s' = s\<lparr>portfolio := AList.update k
               \<lparr>p_quantity = q, entry_price = p, entry_time = ts, trade_id = tid,
                market_type = (case marketType t of None \<Rightarrow> ''unknown'' | Some m \<Rightarrow> m)\<rparr>
               (portfolio s),
            wallet_balance := wallet_balance s - p * q\<rparr>"
      using r replay_trade_buy[OF buy, of s] by simp
    have "debit t = p * q" "credit seen t = 0"
      using buy by (simp_all add: debit_def credit_def value_of_numeric)
    moreover have "holds (portfolio s') k' = open_after (seen @ [t]) k'" for k'
      using buy(1,2) by (simp add: s' holds_update open_after_snoc inv)
    ultimately show ?thesis by (simp add: s')
  next
    case (sell k q p)
    have dc: "debit t = 0" "credit seen t = (if open_after seen k then p * q else 0)"
      using sell by (simp_all add: debit_def credit_def value_of_numeric)
    show ?thesis
    proof (cases "holds (portfolio s) k")
      case True
      then have s': "s' = s\<lparr>portfolio := AList.delete k (portfolio s),
                  wallet_balance := wallet_balance s + p * q\<rparr>"
        using r replay_trade_sell[OF sell, of s] by simp
      have "holds (portfolio s') k' = open_after (seen @ [t]) k'" for k'
        using sell(1,2) by (simp add: s' holds_delete open_after_snoc inv)
      moreover have "open_after seen k" using True inv by simp
      ultimately show ?thesis by (simp add: s' dc)
    next
      case False
      then have s': "s' = s"
        using r replay_trade_sell[OF sell, of s] by simp
      have "holds (portfolio s') k' = open_after (seen @ [t]) k'" for k'
        using sell(1,2) False inv[of k] by (auto simp: s' open_after_snoc inv)
      moreover have "\<not> open_after seen k" using False inv by simp
      ultimately show ?thesis by (simp add: s' dc)
    qed
  next
    case (other k a q p)
    have s': "s' = s"
      using r replay_trade_other[OF other, of s] by simp
    have "debit t = 0" "credit seen t = 0"
      using other by (simp_all add: debit_def credit_def)
    moreover have "holds (portfolio s') k' = open_after (seen @ [t]) k'" for k'
      using other(2,3,4) by (simp add: s' open_after_snoc inv)
    ultimately show ?thesis by (simp add: s')
  qed
qed


lemma buy_total_Cons: "buy_total (t # ts) = debit t + buy_total ts"
  by (simp add: buy_total_def debit_def)

lemma credited_sells_Cons:
  "credited_sells seen (t # ts) = credit seen t + credited_sells (seen @ [t]) ts"
  by simp

lemma replay_wallet:
  "replay ts s = Inr s' \<Longrightarrow>
   (\<And>k. holds (portfolio s) k = open_after seen k) \<Longrightarrow>
   wallet_balance s' = wallet_balance s - buy_total ts + credited_sells seen ts"
proof (induction ts arbitrary: s seen)
  case Nil
  then show ?case by (simp add: buy_total_def)
next
  case (Cons t ts)
  from Cons.prems(1) obtain s1 where s1: "replay_trade t s = Inr s1" and rest: "replay ts s1 = Inr s'"
    by (auto split: sum.splits)
  from replay_trade_step[OF s1 Cons.prems(2)]
  have inv: "\<And>k. holds (portfolio s1) k = open_after (seen @ [t]) k"
    and w1: "wallet_balance s1 = wallet_balance s - debit t + credit seen t"
    by simp_all
  have "wallet_balance s' = wallet_balance s1 - buy_total ts + credited_sells (seen @ [t]) ts"
    using Cons.IH[OF rest inv] .
  with w1 show ?case by (simp only: buy_total_Cons credited_sells_Cons)
qed

lemma replay_readable:
  "(\<exists>s'. replay ts s = Inr s') \<longleftrightarrow> list_all readable ts"
proof (induction ts arbitrary: s)
  case Nil
  then show ?case by simp
next
  case (Cons t ts)
  show ?case
  proof (cases "replay_trade t s")
    case (Inl e)
    then have "\<not> readable t" using replay_trade_readable[of t s] by auto
    with Inl show ?thesis by simp
  next
    case (Inr s1)
    then have "readable t" using replay_trade_unreadable[of t s] by auto
    with Inr Cons.IH[of s1] show ?thesis by simp
  qed
qed

lemma holds_Nil: "holds [] k = False"
  by (simp add: holds_def)

lemma open_after_Nil: "open_after [] k = False"
  by (simp add: open_after_def)

text \<open>
  Claim C1, as amended. After \<^verbatim>\<open>load_portfolio_state\<close> has replayed a window, the
  wallet balance is the initial balance, minus the value of every BUY record, plus the
  value of those SELL records whose symbol is open at their turn in timestamp order; a
  SELL whose symbol is not open is passed over without a credit. When a record of the
  window cannot be read, the wallet balance is the initial balance.
\<close>

theorem replay_balance:
  "wallet_balance (load_portfolio_state INITIAL_BALANCE (Inr trades) s) =
     (case sorted_trades trades of
        Inl e \<Rightarrow> INITIAL_BALANCE
      | Inr ordered \<Rightarrow>
          if list_all readable ordered
          then INITIAL_BALANCE - buy_total ordered + credited_sells [] ordered
          else INITIAL_BALANCE)"
proof (cases "sorted_trades trades")
  case (Inl e)
  then show ?thesis by (simp add: load_portfolio_state_def initial_state_def)
next
  case (Inr ordered)
  show ?thesis
  proof (cases "replay ordered (initial_state INITIAL_BALANCE s)")
    case (Inl e)
    then have "\<not> list_all readable ordered"
      using replay_readable[of ordered "initial_state INITIAL_BALANCE s"] by auto
    with Inl Inr show ?thesis by (simp add: load_portfolio_state_def initial_state_def)
  next
    case r: (Inr s')
    then have "list_all readable ordered"
      using replay_readable[of ordered "initial_state INITIAL_BALANCE s"] by auto
    moreover have "wallet_balance s' =
        wallet_balance (initial_state INITIAL_BALANCE s) - buy_total ordered + credited_sells [] ordered"
      by (rule replay_wallet[OF r]) (simp add: initial_state_def holds_Nil open_after_Nil)
    ultimately show ?thesis using r Inr
      by (simp add: load_portfolio_state_def initial_state_def)
  qed
qed

lemma mixed_sorted: "sorted_trades mixed_window = Inr mixed_window_sorted"
  by (simp add: mixed_window_def mixed_window_sorted_def sorted_trades_def ledger_record_def)

theorem replay_balance_witness:
  "sorted_trades mixed_window = Inr mixed_window_sorted \<and>
   list_all readable mixed_window_sorted \<and>
   buy_total mixed_window_sorted = 2 \<and>
   credited_sells [] mixed_window_sorted = 3 \<and>
   wallet_balance (load_portfolio_state 50 (Inr mixed_window) fresh_trader) = 51"
proof -
  have r: "list_all readable mixed_window_sorted"
    by (simp add: mixed_window_sorted_def ledger_record_def readable_def)
  have b: "buy_total mixed_window_sorted = 2"
    by (simp add: mixed_window_sorted_def ledger_record_def buy_total_def value_of_def)
  have c: "credited_sells [] mixed_window_sorted = 3"
    by (simp add: mixed_window_sorted_def ledger_record_def credit_def open_after_def value_of_def)
  show ?thesis
    using replay_balance[of 50 mixed_window fresh_trader] mixed_sorted r b c by simp
qed

text \<open>
  Claim C1 as stated fails on a window that holds one SELL of SOL and no BUY: the
  balance stays 50, and the stated formula gives 52.
\<close>

theorem replay_balance_counterexample:
  "wallet_balance (load_portfolio_state 50 (Inr sol_sell_only) fresh_trader)
     \<noteq> 50 - buy_total sol_sell_only + sell_total sol_sell_only"
  by (simp add: sol_sell_only_def load_portfolio_state_def sorted_trades_def
      ledger_record_def replay_trade_def initial_state_def fresh_trader_def holds_def
      buy_total_def sell_total_def value_of_def)

section \<open>A second BUY of an open symbol\<close>

lemma holds_keys: "holds pf k \<longleftrightarrow> k \<in> set (map fst pf)"
  by (simp add: holds_def map_of_eq_None_iff)

text \<open>
  Claim C2, as amended. A readable BUY record for a symbol that is already open raises
  nothing: the loop body replaces the open position by the one of this record, keeps the
  set and order of the open symbols, and debits the wallet by price times quantity once
  more.
\<close>

theorem double_open_overwrites:
  assumes "t_symbol t = Some k" "action t = Some ''BUY''"
    "quantity t = Some (Numeric q)" "price t = Some (Numeric p)"
    "timestamp t = Some ts" "tradeId t = Some tid"
    "holds (portfolio s) k"
  shows "\<exists>s'. replay_trade t s = Inr s' \<and>
           map_of (portfolio s') k =
             Some \<lparr>p_quantity = q, entry_price = p, entry_time = ts, trade_id = tid,
                   market_type = (case marketType t of None \<Rightarrow> ''unknown'' | Some m \<Rightarrow> m)\<rparr> \<and>
           map fst (portfolio s') = map fst (portfolio s) \<and>
           wallet_balance s' = wallet_balance s - p * q"
proof -
  have "k \<in> set (map fst (portfolio s))"
    using assms(7) by (simp only: holds_keys)
  then show ?thesis
    by (simp add: replay_trade_buy[OF assms(1-6)] update_conv' update_keys)
qed

theorem double_open_overwrites_witness:
  "replay_trade (ledger_record ''t-2'' ''SOL'' ''BUY'' 2 4 ''2026-10-02T10:00:00'')
     \<lparr>portfolio = [(''SOL'', \<lparr>p_quantity = 1, entry_price = 2,
                     entry_time = ''2026-10-01T10:00:00'', trade_id = ''t-1'',
                     market_type = ''crypto''\<rparr>)],
      wallet_balance = 48, trading_table = [], tick = 0\<rparr>
   = Inr \<lparr>portfolio = [(''SOL'', \<lparr>p_quantity = 2, entry_price = 4,
                     entry_time = ''2026-10-02T10:00:00'', trade_id = ''t-2'',
                     market_type = ''crypto''\<rparr>)],
      wallet_balance = 40, trading_table = [], tick = 0\<rparr>"
  using double_open_overwrites[of
      "ledger_record ''t-2'' ''SOL'' ''BUY'' 2 4 ''2026-10-02T10:00:00''"
      "''SOL''" 2 4 "''2026-10-02T10:00:00''" "''t-2''"
      "\<lparr>portfolio = [(''SOL'', \<lparr>p_quantity = 1, entry_price = 2,
                     entry_time = ''2026-10-01T10:00:00'', trade_id = ''t-1'',
                     market_type = ''crypto''\<rparr>)],
      wallet_balance = 48, trading_table = [], tick = 0\<rparr>"]
  by (simp add: ledger_record_def holds_def replay_trade_def)

text \<open>
  Claim C2 as stated fails: a window of two BUY records of SOL with no SELL between
  them is replayed to the end without an exception.
\<close>

theorem double_open_counterexample:
  "sorted_trades double_buy = Inr double_buy \<and>
   replay double_buy (initial_state 50 fresh_trader) =
     Inr \<lparr>portfolio = [(''SOL'', \<lparr>p_quantity = 2, entry_price = 4,
                     entry_time = ''2026-10-02T10:00:00'', trade_id = ''t-2'',
                     market_type = ''crypto''\<rparr>)],
          wallet_balance = 40, trading_table = [], tick = 0\<rparr>"
  by (simp add: double_buy_def sorted_trades_def ledger_record_def replay_trade_def
      initial_state_def fresh_trader_def holds_def)

section \<open>A SELL of a symbol that is not open\<close>

text \<open>
  Claim C3, as amended. A readable SELL record for a symbol with no open position
  raises nothing: the loop body leaves the portfolio and the wallet as they are, and
  the replay goes on with the next record.
\<close>

theorem unmatched_sell_skipped:
  assumes "t_symbol t = Some k" "action t = Some ''SELL''"
    "quantity t = Some (Numeric q)" "price t = Some (Numeric p)"
    "\<not> holds (portfolio s) k"
  shows "replay_trade t s = Inr s \<and> replay (t # ts) s = replay ts s"
  using assms(5) by (simp add: replay_trade_sell[OF assms(1-4)])

theorem unmatched_sell_skipped_witness:
  "\<not> holds (portfolio (initial_state 50 fresh_trader)) ''SOL'' \<and>
   replay_trade (ledger_record ''t-1'' ''SOL'' ''SELL'' 1 2 ''2026-10-01T10:00:00'')
     (initial_state 50 fresh_trader) = Inr (initial_state 50 fresh_trader)"
  using unmatched_sell_skipped[of
      "ledger_record ''t-1'' ''SOL'' ''SELL'' 1 2 ''2026-10-01T10:00:00''"
      "''SOL''" 1 2 "initial_state 50 fresh_trader" "[]"]
  by (simp add: ledger_record_def holds_def initial_state_def fresh_trader_def)

text \<open>
  Claim C3 as stated fails: the window that holds only a SELL of SOL is replayed
  without an exception, and the replay returns the state it started from.
\<close>

theorem unmatched_sell_counterexample:
  "sorted_trades sol_sell_only = Inr sol_sell_only \<and>
   replay sol_sell_only (initial_state 50 fresh_trader) = Inr (initial_state 50 fresh_trader)"
  by (simp add: sol_sell_only_def sorted_trades_def ledger_record_def replay_trade_def
      initial_state_def fresh_trader_def holds_def)

section \<open>A record that cannot be read\<close>

lemma timestamp_keys_snd: "timestamp_keys ts = Inr kts \<Longrightarrow> map snd kts = ts"
  by (induction ts arbitrary: kts) (auto split: option.splits sum.splits)

lemma sorted_trades_set: "sorted_trades ts = Inr ordered \<Longrightarrow> set ordered = set ts"
proof -
  assume a: "sorted_trades ts = Inr ordered"
  then obtain kts where k: "timestamp_keys ts = Inr kts" and o: "ordered = map snd (sort_key fst kts)"
    by (auto simp: sorted_trades_def split: sum.splits)
  have "set ordered = snd ` set kts" using o by simp
  also have "\<dots> = set (map snd kts)" by simp
  also have "\<dots> = set ts" using timestamp_keys_snd[OF k] by simp
  finally show ?thesis .
qed

lemma not_numeric_unreadable:
  "(\<forall>r. quantity t \<noteq> Some (Numeric r)) \<or> (\<forall>r. price t \<noteq> Some (Numeric r)) \<Longrightarrow> \<not> readable t"
  by (auto simp: readable_def)

text \<open>
  Claim C5, as amended. When one record of the window has a quantity or a price that is
  missing or not numeric, \<^verbatim>\<open>load_portfolio_state\<close> applies no record of the window:
  the exception ends the replay, the handler logs a warning, and the trader is back at
  the initial balance with no open position.
\<close>

theorem corrupt_record_resets_replay:
  assumes "t \<in> set trades"
    and "(\<forall>r. quantity t \<noteq> Some (Numeric r)) \<or> (\<forall>r. price t \<noteq> Some (Numeric r))"
  shows "load_portfolio_state INITIAL_BALANCE (Inr trades) s = initial_state INITIAL_BALANCE s"
proof (cases "sorted_trades trades")
  case (Inl e)
  then show ?thesis by (simp add: load_portfolio_state_def)
next
  case (Inr ordered)
  have "t \<in> set ordered" using sorted_trades_set[OF Inr] assms(1) by simp
  moreover have "\<not> readable t" using assms(2) by (rule not_numeric_unreadable)
  ultimately have "\<not> list_all readable ordered" by (auto simp: list_all_iff)
  then have "\<exists>e. replay ordered (initial_state INITIAL_BALANCE s) = Inl e"
    using replay_readable[of ordered "initial_state INITIAL_BALANCE s"]
    by (cases "replay ordered (initial_state INITIAL_BALANCE s)") auto
  with Inr show ?thesis by (auto simp: load_portfolio_state_def)
qed

theorem corrupt_record_resets_replay_witness:
  "corrupt_eth_buy \<in> set [btc_buy, corrupt_eth_buy] \<and>
   (\<forall>r. quantity corrupt_eth_buy \<noteq> Some (Numeric r)) \<and>
   load_portfolio_state 50 (Inr [btc_buy, corrupt_eth_buy]) fresh_trader
     = \<lparr>portfolio = [], wallet_balance = 50, trading_table = [], tick = 0\<rparr>"
proof -
  have q: "\<forall>r. quantity corrupt_eth_buy \<noteq> Some (Numeric r)"
    by (simp add: corrupt_eth_buy_def ledger_record_def)
  have m: "corrupt_eth_buy \<in> set [btc_buy, corrupt_eth_buy]" by simp
  from q have "(\<forall>r. quantity corrupt_eth_buy \<noteq> Some (Numeric r)) \<or>
      (\<forall>r. price corrupt_eth_buy \<noteq> Some (Numeric r))" by simp
  from corrupt_record_resets_replay[OF m this, of 50 fresh_trader] q m
  show ?thesis by (simp add: initial_state_def fresh_trader_def)
qed

text \<open>
  Claim C5 as stated fails: with a readable BUY of BTC followed by a BUY of ETH whose
  quantity is not numeric, the replay does not keep the BTC position that the window
  without the corrupt record yields.
\<close>

theorem corrupt_record_counterexample:
  "load_portfolio_state 50 (Inr [btc_buy, corrupt_eth_buy]) fresh_trader
     = \<lparr>portfolio = [], wallet_balance = 50, trading_table = [], tick = 0\<rparr> \<and>
   load_portfolio_state 50 (Inr [btc_buy]) fresh_trader
     = \<lparr>portfolio = [(''BTC'', \<lparr>p_quantity = 1, entry_price = 2,
                       entry_time = ''2026-10-01T10:00:00'', trade_id = ''t-1'',
                       market_type = ''crypto''\<rparr>)],
        wallet_balance = 48, trading_table = [], tick = 0\<rparr>"
  by (simp add: btc_buy_def corrupt_eth_buy_def load_portfolio_state_def sorted_trades_def
      ledger_record_def replay_trade_def initial_state_def fresh_trader_def holds_def)

section \<open>The order of the replay\<close>

lemma timestamp_keys_char:
  "timestamp_keys ts =
     (if \<forall>t \<in> set ts. timestamp t \<noteq> None
      then Inr (map (\<lambda>t. (the (timestamp t), t)) ts)
      else Inl KeyError)"
  by (induction ts) (auto split: option.splits)

lemma sorted_trades_permuted:
  assumes m: "mset trades = mset trades'"
    and d: "distinct (map timestamp trades)"
  shows "sorted_trades trades = sorted_trades trades'"
proof -
  have set_eq: "set trades = set trades'"
    using m by (rule mset_eq_setD)
  show ?thesis
  proof (cases "\<forall>t \<in> set trades. timestamp t \<noteq> None")
    case False
    with set_eq show ?thesis by (auto simp: sorted_trades_def timestamp_keys_char)
  next
    case True
    let ?f = "\<lambda>t. (the (timestamp t), t)"
    have inj_ts: "inj_on timestamp (set trades)"
      using d by (simp add: distinct_map)
    have "inj_on fst (set (map ?f trades))"
    proof (rule inj_onI)
      fix x y
      assume x: "x \<in> set (map ?f trades)" and y: "y \<in> set (map ?f trades)" and e: "fst x = fst y"
      from x obtain a where a: "a \<in> set trades" "x = ?f a" by auto
      from y obtain b where b: "b \<in> set trades" "y = ?f b" by auto
      from True a b obtain ka kb where k: "timestamp a = Some ka" "timestamp b = Some kb"
        by blast
      with e a b have "timestamp a = timestamp b" by simp
      with inj_ts a b have "a = b" by (auto dest: inj_onD)
      with a b show "x = y" by simp
    qed
    moreover have "mset (map ?f trades) = mset (map ?f trades')"
      using m by (metis mset_map)
    ultimately have "sort_key fst (map ?f trades) = sort_key fst (map ?f trades')"
      by (rule sort_key_eq_sort_key[rotated])
    with True set_eq show ?thesis
      by (simp add: sorted_trades_def timestamp_keys_char)
  qed
qed

lemma sorted_trades_stable:
  assumes "sorted_trades trades = Inr ordered"
  shows "filter (\<lambda>t. timestamp t = Some k) ordered = filter (\<lambda>t. timestamp t = Some k) trades"
proof -
  let ?f = "\<lambda>t. (the (timestamp t), t)"
  from assms have all: "\<forall>t \<in> set trades. timestamp t \<noteq> None"
    and o: "ordered = map snd (sort_key fst (map ?f trades))"
    by (auto simp: sorted_trades_def timestamp_keys_char split: if_splits)
  have eq: "filter (\<lambda>t. timestamp t = Some k) (map snd kts) = map snd (filter (\<lambda>x. fst x = k) kts)"
    if "\<forall>x \<in> set kts. timestamp (snd x) = Some (fst x)" for kts :: "(string \<times> item) list"
    using that by (induction kts) auto
  have inv: "\<forall>x \<in> set (map ?f trades). timestamp (snd x) = Some (fst x)"
    using all by auto
  then have inv': "\<forall>x \<in> set (sort_key fst (map ?f trades)). timestamp (snd x) = Some (fst x)"
    by simp
  have "filter (\<lambda>t. timestamp t = Some k) ordered
      = map snd (filter (\<lambda>x. fst x = k) (sort_key fst (map ?f trades)))"
    unfolding o by (rule eq[OF inv'])
  also have "\<dots> = map snd (filter (\<lambda>x. fst x = k) (map ?f trades))"
    by (simp only: sort_key_stable)
  also have "\<dots> = filter (\<lambda>t. timestamp t = Some k) (map snd (map ?f trades))"
    by (rule eq[OF inv, symmetric])
  also have "map snd (map ?f trades) = trades"
    by (simp add: comp_def)
  finally show ?thesis .
qed

lemma sorted_trades_ascending:
  assumes "sorted_trades trades = Inr ordered"
  shows "\<exists>ks. map timestamp ordered = map Some ks \<and> sorted ks"
proof -
  let ?f = "\<lambda>t. (the (timestamp t), t)"
  from assms have all: "\<forall>t \<in> set trades. timestamp t \<noteq> None"
    and o: "ordered = map snd (sort_key fst (map ?f trades))"
    by (auto simp: sorted_trades_def timestamp_keys_char split: if_splits)
  let ?ks = "map fst (sort_key fst (map ?f trades))"
  have "\<forall>x \<in> set (sort_key fst (map ?f trades)). timestamp (snd x) = Some (fst x)"
    using all by auto
  then have "map timestamp ordered = map Some ?ks"
    unfolding o by (simp add: comp_def)
  moreover have "sorted ?ks" by (rule sorted_sort_key)
  ultimately show ?thesis by blast
qed

text \<open>
  Claim C6, as amended. The replay processes the records in ascending order of their
  timestamps; records with equal timestamps keep the order in which the scan returned
  them, and the trade identifier plays no part. When the timestamps of the window are
  pairwise distinct, the reconstructed trader is the same for every order in which the
  window is presented.
\<close>

theorem replay_order:
  "(sorted_trades trades = Inr ordered \<longrightarrow>
      (\<exists>ks. map timestamp ordered = map Some ks \<and> sorted ks) \<and>
      (\<forall>k. filter (\<lambda>t. timestamp t = Some k) ordered =
           filter (\<lambda>t. timestamp t = Some k) trades)) \<and>
   (mset trades = mset trades' \<and> distinct (map timestamp trades) \<longrightarrow>
      load_portfolio_state INITIAL_BALANCE (Inr trades) s =
      load_portfolio_state INITIAL_BALANCE (Inr trades') s)"
proof (intro conjI impI allI)
  assume "sorted_trades trades = Inr ordered"
  then show "\<exists>ks. map timestamp ordered = map Some ks \<and> sorted ks"
    by (rule sorted_trades_ascending)
next
  fix k
  assume "sorted_trades trades = Inr ordered"
  then show "filter (\<lambda>t. timestamp t = Some k) ordered = filter (\<lambda>t. timestamp t = Some k) trades"
    by (rule sorted_trades_stable)
next
  assume "mset trades = mset trades' \<and> distinct (map timestamp trades)"
  then have "sorted_trades trades = sorted_trades trades'"
    using sorted_trades_permuted by blast
  then show "load_portfolio_state INITIAL_BALANCE (Inr trades) s =
      load_portfolio_state INITIAL_BALANCE (Inr trades') s"
    by (simp add: load_portfolio_state_def)
qed

theorem replay_order_witness:
  "sorted_trades mixed_window = Inr mixed_window_sorted \<and>
   mset mixed_window = mset mixed_window_sorted \<and>
   distinct (map timestamp mixed_window) \<and>
   load_portfolio_state 50 (Inr mixed_window) fresh_trader =
   load_portfolio_state 50 (Inr mixed_window_sorted) fresh_trader"
proof -
  have m: "mset mixed_window = mset mixed_window_sorted"
    by (simp add: mixed_window_def mixed_window_sorted_def)
  have d: "distinct (map timestamp mixed_window)"
    by (simp add: mixed_window_def ledger_record_def)
  from replay_order[of mixed_window mixed_window_sorted mixed_window_sorted 50 fresh_trader]
    mixed_sorted m d
  show ?thesis by simp
qed

text \<open>
  Claim C6 as stated fails: a BUY and a SELL of SOL with the same timestamp are
  replayed in the order of the input. With the BUY first the position is opened and
  closed; with the SELL first the SELL is passed over and the position stays open.
\<close>

theorem replay_order_counterexample:
  "load_portfolio_state 50 (Inr [sol_buy_noon, sol_sell_noon]) fresh_trader
     = \<lparr>portfolio = [], wallet_balance = 51, trading_table = [], tick = 0\<rparr> \<and>
   load_portfolio_state 50 (Inr [sol_sell_noon, sol_buy_noon]) fresh_trader
     = \<lparr>portfolio = [(''SOL'', \<lparr>p_quantity = 1, entry_price = 2,
                       entry_time = ''2026-10-01T12:00:00'', trade_id = ''t-1'',
                       market_type = ''crypto''\<rparr>)],
        wallet_balance = 48, trading_table = [], tick = 0\<rparr>"
  by (simp add: sol_buy_noon_def sol_sell_noon_def load_portfolio_state_def sorted_trades_def
      ledger_record_def replay_trade_def initial_state_def fresh_trader_def holds_def)

section \<open>What \<^verbatim>\<open>execute_trade\<close> and \<^verbatim>\<open>close_position\<close> do, branch by branch\<close>

lemma execute_trade_buy_zero:
  "signal p = BUY \<Longrightarrow> current_price p = 0 \<Longrightarrow> execute_trade e p s = (False, s)"
  by (simp add: execute_trade_def)

lemma execute_trade_hold:
  "signal p = HOLD \<Longrightarrow> execute_trade e p s = (False, s)"
  by (simp add: execute_trade_def)

lemma execute_trade_sell_absent:
  "signal p = SELL \<Longrightarrow> \<not> holds (portfolio s) (p_symbol p) \<Longrightarrow> execute_trade e p s = (False, s)"
  by (simp add: execute_trade_def)

lemma execute_trade_sell_zero:
  "signal p = SELL \<Longrightarrow> map_of (portfolio s) (p_symbol p) = Some pos \<Longrightarrow> entry_price pos = 0 \<Longrightarrow>
   execute_trade e p s = (False, s)"
  by (simp add: execute_trade_def holds_def)

lemma execute_trade_buy:
  assumes "signal p = BUY" "current_price p \<noteq> 0"
  shows "fst (execute_trade e p s) = (\<not> put_item_raises e (tick s))"
    and "portfolio (snd (execute_trade e p s)) =
           AList.update (p_symbol p)
             \<lparr>p_quantity = wallet_balance s * max_position_size * confidence p / current_price p,
              entry_price = current_price p, entry_time = utcnow e (tick s),
              trade_id = uuid4 e (tick s), market_type = p_market_type p\<rparr>
             (portfolio s)"
    and "wallet_balance (snd (execute_trade e p s)) =
           wallet_balance s - wallet_balance s * max_position_size * confidence p"
    and "tick (snd (execute_trade e p s)) = Suc (tick s)"
    and "trading_table (snd (execute_trade e p s)) =
           (if put_item_raises e (tick s) then trading_table s
            else trading_table s @
              [\<lparr>tradeId = Some (uuid4 e (tick s)), t_symbol = Some (p_symbol p),
                marketType = Some (p_market_type p), action = Some ''BUY'',
                quantity = Some (Numeric
                  (wallet_balance s * max_position_size * confidence p / current_price p)),
                price = Some (Numeric (current_price p)),
                t_value = Some (Numeric (wallet_balance s * max_position_size * confidence p)),
                timestamp = Some (utcnow e (tick s)),
                entryPrice = None, pnl = None, pnlPercent = None, exitReason = None,
                walletBalanceBefore = Some (Numeric (wallet_balance s)),
                walletBalanceAfter = Some (Numeric
                  (wallet_balance s - wallet_balance s * max_position_size * confidence p)),
                originalTradeId = None\<rparr>])"
  using assms by (simp_all add: execute_trade_def Let_def)

lemma execute_trade_sell:
  assumes "signal p = SELL" "map_of (portfolio s) (p_symbol p) = Some pos" "entry_price pos \<noteq> 0"
  shows "fst (execute_trade e p s) = (\<not> put_item_raises e (tick s))"
    and "portfolio (snd (execute_trade e p s)) = AList.delete (p_symbol p) (portfolio s)"
    and "wallet_balance (snd (execute_trade e p s)) =
           wallet_balance s + current_price p * p_quantity pos"
    and "tick (snd (execute_trade e p s)) = Suc (tick s)"
    and "trading_table (snd (execute_trade e p s)) =
           (if put_item_raises e (tick s) then trading_table s
            else trading_table s @
              [\<lparr>tradeId = Some (uuid4 e (tick s)), t_symbol = Some (p_symbol p),
                marketType = Some (p_market_type p), action = Some ''SELL'',
                quantity = Some (Numeric (p_quantity pos)),
                price = Some (Numeric (current_price p)),
                t_value = Some (Numeric (current_price p * p_quantity pos)),
                timestamp = Some (utcnow e (tick s)),
                entryPrice = Some (Numeric (entry_price pos)),
                pnl = Some (Numeric ((current_price p - entry_price pos) * p_quantity pos)),
                pnlPercent = Some (Numeric
                  ((current_price p - entry_price pos) / entry_price pos * 100)),
                exitReason = None,
                walletBalanceBefore = Some (Numeric (wallet_balance s)),
                walletBalanceAfter = Some (Numeric
                  (wallet_balance s + current_price p * p_quantity pos)),
                originalTradeId = Some (trade_id pos)\<rparr>])"
  using assms by (simp_all add: execute_trade_def Let_def holds_def)

lemma close_position_absent:
  "map_of (portfolio s) k = None \<Longrightarrow> close_position e k pr reason s = s"
  by (simp add: close_position_def)

lemma close_position_zero:
  "map_of (portfolio s) k = Some pos \<Longrightarrow> entry_price pos = 0 \<Longrightarrow>
   close_position e k pr reason s = s"
  by (simp add: close_position_def)

lemma close_position_held:
  assumes "map_of (portfolio s) k = Some pos" "entry_price pos \<noteq> 0"
  shows "portfolio (close_position e k pr reason s) = AList.delete k (portfolio s)"
    and "wallet_balance (close_position e k pr reason s) = wallet_balance s + pr * p_quantity pos"
    and "tick (close_position e k pr reason s) = Suc (tick s)"
    and "trading_table (close_position e k pr reason s) =
           (if put_item_raises e (tick s) then trading_table s
            else trading_table s @
              [\<lparr>tradeId = Some (uuid4 e (tick s)), t_symbol = Some k,
                marketType = Some (market_type pos), action = Some ''SELL'',
                quantity = Some (Numeric (p_quantity pos)), price = Some (Numeric pr),
                t_value = Some (Numeric (pr * p_quantity pos)),
                timestamp = Some (utcnow e (tick s)),
                entryPrice = Some (Numeric (entry_price pos)),
                pnl = Some (Numeric ((pr - entry_price pos) * p_quantity pos)),
                pnlPercent = Some (Numeric ((pr - entry_price pos) / entry_price pos * 100)),
                exitReason = Some reason,
                walletBalanceBefore = Some (Numeric (wallet_balance s)),
                walletBalanceAfter = Some (Numeric (wallet_balance s + pr * p_quantity pos)),
                originalTradeId = Some (trade_id pos)\<rparr>])"
  using assms by (simp_all add: close_position_def Let_def)

lemma should_trade_buy: "should_trade p s \<Longrightarrow> signal p = BUY"
  by (cases "signal p") (simp_all add: should_trade_def split: if_splits)

lemma trader_eqI:
  fixes a b :: trader
  assumes "portfolio a = portfolio b" "wallet_balance a = wallet_balance b"
    "trading_table a = trading_table b" "tick a = tick b"
  shows "a = b"
  using assms by simp

section \<open>A write to the ledger that fails\<close>

text \<open>
  Claim C4, as amended. When \<^verbatim>\<open>put_item\<close> raises, \<^verbatim>\<open>execute_trade\<close> catches the
  exception, logs it and returns \<^verbatim>\<open>False\<close>, and \<^verbatim>\<open>close_position\<close> returns
  normally. The assignments made before the write stay: the trader is the one a
  successful write leaves, except that the ledger has not received the record. The
  loop of phase 2 then goes on with the next prediction from that state, without
  counting the trade.
\<close>

theorem persist_failure_keeps_mutation:
  assumes "put_item_raises e (tick s)"
  shows "execute_trade e p s =
           (False, (snd (execute_trade (e\<lparr>put_item_raises := (\<lambda>n. False)\<rparr>) p s))
                     \<lparr>trading_table := trading_table s\<rparr>) \<and>
         close_position e k pr reason s =
           (close_position (e\<lparr>put_item_raises := (\<lambda>n. False)\<rparr>) k pr reason s)
             \<lparr>trading_table := trading_table s\<rparr> \<and>
         (should_trade p s \<longrightarrow>
            phase2_entries e (p # ps) (n, s) =
              phase2_entries e ps (n, snd (execute_trade e p s)))"
proof (intro conjI impI)
  show "execute_trade e p s =
           (False, (snd (execute_trade (e\<lparr>put_item_raises := (\<lambda>n. False)\<rparr>) p s))
                     \<lparr>trading_table := trading_table s\<rparr>)"
    using assms by (simp add: execute_trade_def Let_def split: option.splits)
  show "close_position e k pr reason s =
           (close_position (e\<lparr>put_item_raises := (\<lambda>n. False)\<rparr>) k pr reason s)
             \<lparr>trading_table := trading_table s\<rparr>"
    using assms by (simp add: close_position_def Let_def split: option.splits)
  assume "should_trade p s"
  moreover have "fst (execute_trade e p s) = False"
    using assms by (simp add: execute_trade_def Let_def split: option.splits)
  ultimately show "phase2_entries e (p # ps) (n, s) =
      phase2_entries e ps (n, snd (execute_trade e p s))"
    by (simp add: case_prod_beta)
qed

theorem persist_failure_keeps_mutation_witness:
  "put_item_raises failing_env (tick fresh_trader) \<and>
   should_trade btc_buy_signal fresh_trader \<and>
   execute_trade failing_env btc_buy_signal fresh_trader =
     (False, (snd (execute_trade calm_env btc_buy_signal fresh_trader))
               \<lparr>trading_table := []\<rparr>) \<and>
   phase2_entries failing_env [btc_buy_signal] (0, fresh_trader) =
     (0, snd (execute_trade failing_env btc_buy_signal fresh_trader))"
proof -
  have f: "put_item_raises failing_env (tick fresh_trader)"
    by (simp add: failing_env_def)
  have st: "should_trade btc_buy_signal fresh_trader"
    by (simp add: should_trade_def btc_buy_signal_def fresh_trader_def min_confidence_def
        max_position_size_def holds_def)
  have c: "failing_env\<lparr>put_item_raises := (\<lambda>n. False)\<rparr> = calm_env"
    by (simp add: failing_env_def calm_env_def)
  have t: "trading_table fresh_trader = []"
    by (simp add: fresh_trader_def)
  from persist_failure_keeps_mutation[OF f, of btc_buy_signal "''BTC''" 45000 "''STOP_LOSS''"
      "[]" 0] st f
  show ?thesis by (simp add: c t)
qed

text \<open>
  Claim C4 as stated fails: with a store that rejects the write, the BUY of the sizing
  scenario returns \<^verbatim>\<open>False\<close> and leaves the BTC position in the portfolio and the
  wallet at 42; nothing is rolled back.
\<close>

theorem persist_failure_counterexample:
  "execute_trade failing_env btc_buy_signal fresh_trader =
     (False,
      \<lparr>portfolio = [(''BTC'', \<lparr>p_quantity = 8 / 45000, entry_price = 45000,
                      entry_time = ''2026-11-01T00:00:00'', trade_id = ''id-'',
                      market_type = ''crypto''\<rparr>)],
       wallet_balance = 42, trading_table = [], tick = 1\<rparr>)"
  by (simp add: execute_trade_def Let_def failing_env_def calm_env_def btc_buy_signal_def
      fresh_trader_def max_position_size_def)

section \<open>The size of an entry\<close>

text \<open>
  Claim C8. A BUY prediction that passes \<^verbatim>\<open>should_trade\<close> (confidence at least the
  minimum, symbol not held, wallet times the position fraction at least one dollar) and
  whose price is not zero, as it is whenever \<^verbatim>\<open>execute_trade\<close> returns
  \<^verbatim>\<open>True\<close>, opens a position of value wallet times position fraction
  times confidence: its quantity is that value divided by the price, the stored record
  carries that value, and the wallet is debited by exactly that value. With a wallet
  of 50 and BTC at 45000 with confidence 0.8 the value is 8, the quantity is 8/45000,
  which is 0.0001778 to seven decimals, and the wallet becomes 42.
\<close>

theorem entry_sizing:
  "(should_trade p s \<and> current_price p \<noteq> 0 \<longrightarrow>
      (\<exists>pos. map_of (portfolio (snd (execute_trade e p s))) (p_symbol p) = Some pos \<and>
         p_quantity pos = wallet_balance s * max_position_size * confidence p / current_price p \<and>
         p_quantity pos * entry_price pos = wallet_balance s * max_position_size * confidence p) \<and>
      wallet_balance (snd (execute_trade e p s)) =
        wallet_balance s - wallet_balance s * max_position_size * confidence p \<and>
      (\<not> put_item_raises e (tick s) \<longrightarrow>
         fst (execute_trade e p s) \<and>
         t_value (last (trading_table (snd (execute_trade e p s)))) =
           Some (Numeric (wallet_balance s * max_position_size * confidence p)))) \<and>
   (should_trade p s \<and> fst (execute_trade e p s) \<longrightarrow> current_price p \<noteq> 0) \<and>
   max_position_size = 2 / 10 \<and>
   should_trade btc_buy_signal fresh_trader \<and>
   wallet_balance fresh_trader * max_position_size * confidence btc_buy_signal = 8 \<and>
   map_of (portfolio (snd (execute_trade calm_env btc_buy_signal fresh_trader))) ''BTC'' =
     Some \<lparr>p_quantity = 8 / 45000, entry_price = 45000,
           entry_time = ''2026-11-01T00:00:00'', trade_id = ''id-'',
           market_type = ''crypto''\<rparr> \<and>
   \<bar>8 / 45000 - 1778 / 10000000\<bar> < (5 / 100000000 :: rat) \<and>
   wallet_balance (snd (execute_trade calm_env btc_buy_signal fresh_trader)) = 42"
proof -
  have general: "(\<exists>pos. map_of (portfolio (snd (execute_trade e p s))) (p_symbol p) = Some pos \<and>
         p_quantity pos = wallet_balance s * max_position_size * confidence p / current_price p \<and>
         p_quantity pos * entry_price pos = wallet_balance s * max_position_size * confidence p) \<and>
      wallet_balance (snd (execute_trade e p s)) =
        wallet_balance s - wallet_balance s * max_position_size * confidence p \<and>
      (\<not> put_item_raises e (tick s) \<longrightarrow>
         fst (execute_trade e p s) \<and>
         t_value (last (trading_table (snd (execute_trade e p s)))) =
           Some (Numeric (wallet_balance s * max_position_size * confidence p)))"
    if st: "should_trade p s" and nz: "current_price p \<noteq> 0"
  proof -
    have buy: "signal p = BUY"
      using st by (cases "signal p") (simp_all add: should_trade_def split: if_splits)
    note b = execute_trade_buy[OF buy nz, of e s]
    show ?thesis
      using nz by (simp add: b update_conv')
  qed
  have executed: "current_price p \<noteq> 0" if "should_trade p s" "fst (execute_trade e p s)"
  proof
    assume "current_price p = 0"
    with that(1) have "execute_trade e p s = (False, s)"
      by (simp add: execute_trade_buy_zero should_trade_buy)
    with that(2) show False by simp
  qed
  have st0: "should_trade btc_buy_signal fresh_trader"
    by (simp add: should_trade_def btc_buy_signal_def fresh_trader_def min_confidence_def
        max_position_size_def holds_def)
  have buy0: "signal btc_buy_signal = BUY" and nz0: "current_price btc_buy_signal \<noteq> 0"
    by (simp_all add: btc_buy_signal_def)
  note b0 = execute_trade_buy[OF buy0 nz0, of calm_env fresh_trader]
  have size0: "wallet_balance fresh_trader * max_position_size * confidence btc_buy_signal = 8"
    by (simp add: btc_buy_signal_def fresh_trader_def max_position_size_def)
  have pos0: "map_of (portfolio (snd (execute_trade calm_env btc_buy_signal fresh_trader))) ''BTC'' =
     Some \<lparr>p_quantity = 8 / 45000, entry_price = 45000,
           entry_time = ''2026-11-01T00:00:00'', trade_id = ''id-'',
           market_type = ''crypto''\<rparr>"
    unfolding b0(2) size0
    by (simp add: btc_buy_signal_def fresh_trader_def calm_env_def)
  have w0: "wallet_balance (snd (execute_trade calm_env btc_buy_signal fresh_trader)) = 42"
    unfolding b0(3) size0 by (simp add: fresh_trader_def)
  have approx: "\<bar>8 / 45000 - 1778 / 10000000\<bar> < (5 / 100000000 :: rat)"
    by simp
  show ?thesis
    using general executed st0 size0 pos0 w0 approx by (simp add: max_position_size_def)
qed

theorem entry_sizing_witness:
  "should_trade btc_buy_signal fresh_trader \<and> current_price btc_buy_signal \<noteq> 0 \<and>
   \<not> put_item_raises calm_env (tick fresh_trader) \<and>
   wallet_balance (snd (execute_trade calm_env btc_buy_signal fresh_trader)) = 50 - 8 \<and>
   fst (execute_trade calm_env btc_buy_signal fresh_trader) \<and>
   t_value (last (trading_table (snd (execute_trade calm_env btc_buy_signal fresh_trader))))
     = Some (Numeric 8)"
proof -
  have nz: "current_price btc_buy_signal \<noteq> 0"
    by (simp add: btc_buy_signal_def)
  have ok: "\<not> put_item_raises calm_env (tick fresh_trader)"
    by (simp add: calm_env_def)
  have w: "wallet_balance fresh_trader = 50"
    by (simp add: fresh_trader_def)
  from entry_sizing[of btc_buy_signal fresh_trader calm_env] nz ok w
  show ?thesis by simp
qed

section \<open>The wallet during a session\<close>

lemma quantities_nonneg_delete:
  "quantities_nonneg pf \<Longrightarrow> quantities_nonneg (AList.delete k pf)"
  by (auto simp: quantities_nonneg_def AList.delete_eq list_all_iff)

lemma quantities_nonneg_lookup:
  "quantities_nonneg pf \<Longrightarrow> map_of pf k = Some pos \<Longrightarrow> 0 \<le> p_quantity pos"
  by (auto simp: quantities_nonneg_def list_all_iff dest: map_of_SomeD)

lemma debit_bounded:
  fixes w c :: rat
  assumes "0 \<le> w" "c \<le> 1"
  shows "0 \<le> w - w * max_position_size * c"
proof -
  have "w * c \<le> w" using assms by (rule mult_left_le[rotated])
  then have "w * c / 5 \<le> w / 5" by simp
  also have "\<dots> \<le> w" using assms(1) by simp
  finally show ?thesis by (simp add: max_position_size_def)
qed

lemma after_nonneg_drop_single:
  "list_all after_nonneg (drop j [r]) \<longleftrightarrow> (j = 0 \<longrightarrow> after_nonneg r)"
  by (cases j) simp_all

lemma execute_trade_buy_solvent:
  assumes "never_overdrawn m s" "signal p = BUY" "confidence p \<le> 1"
  shows "never_overdrawn m (snd (execute_trade e p s))"
proof (cases "current_price p = 0")
  case True
  with assms show ?thesis by (simp add: execute_trade_buy_zero)
next
  case False
  note b = execute_trade_buy[OF assms(2) False, of e s]
  have w: "0 \<le> wallet_balance s - wallet_balance s * max_position_size * confidence p"
    using assms(1,3) by (intro debit_bounded) (simp_all add: never_overdrawn_def)
  show ?thesis
    using assms(1) w by (simp add: never_overdrawn_def b after_nonneg_drop_single after_nonneg_def)
qed

lemma execute_trade_sell_solvent:
  assumes "never_overdrawn m s" "quantities_nonneg (portfolio s)" "signal p = SELL"
    "0 \<le> current_price p"
  shows "never_overdrawn m (snd (execute_trade e p s)) \<and>
         quantities_nonneg (portfolio (snd (execute_trade e p s)))"
proof (cases "map_of (portfolio s) (p_symbol p)")
  case None
  then have "execute_trade e p s = (False, s)"
    using assms(3) by (simp add: execute_trade_sell_absent holds_def)
  with assms show ?thesis by simp
next
  case (Some pos)
  show ?thesis
  proof (cases "entry_price pos = 0")
    case True
    with Some assms show ?thesis by (simp add: execute_trade_sell_zero)
  next
    case False
    note b = execute_trade_sell[OF assms(3) Some False, of e]
    have "0 \<le> p_quantity pos"
      using assms(2) Some by (rule quantities_nonneg_lookup)
    then have w: "0 \<le> wallet_balance s + current_price p * p_quantity pos"
      using assms(1,4) by (simp add: never_overdrawn_def)
    show ?thesis
      using assms(1,2) w
      by (simp add: never_overdrawn_def b after_nonneg_drop_single after_nonneg_def
          quantities_nonneg_delete)
  qed
qed

lemma close_position_solvent:
  assumes "never_overdrawn m s" "quantities_nonneg (portfolio s)" "0 \<le> pr"
  shows "never_overdrawn m (close_position e k pr reason s) \<and>
         quantities_nonneg (portfolio (close_position e k pr reason s))"
proof (cases "map_of (portfolio s) k")
  case None
  with assms show ?thesis by (simp add: close_position_absent)
next
  case (Some pos)
  show ?thesis
  proof (cases "entry_price pos = 0")
    case True
    with Some assms show ?thesis by (simp add: close_position_zero)
  next
    case False
    note b = close_position_held[OF Some False, of e pr reason]
    have "0 \<le> p_quantity pos"
      using assms(2) Some by (rule quantities_nonneg_lookup)
    then have w: "0 \<le> wallet_balance s + pr * p_quantity pos"
      using assms(1,3) by (simp add: never_overdrawn_def)
    show ?thesis
      using assms(1,2) w
      by (simp add: never_overdrawn_def b after_nonneg_drop_single after_nonneg_def
          quantities_nonneg_delete)
  qed
qed

lemma phase1_exits_solvent:
  "never_overdrawn m s \<Longrightarrow> quantities_nonneg (portfolio s) \<Longrightarrow>
   \<forall>p \<in> set ps. 0 \<le> current_price p \<Longrightarrow>
   never_overdrawn m (snd (phase1_exits e ps (n, s))) \<and>
   quantities_nonneg (portfolio (snd (phase1_exits e ps (n, s))))"
proof (induction ps arbitrary: n s)
  case Nil
  then show ?case by simp
next
  case (Cons p ps)
  show ?case
  proof (cases "holds (portfolio s) (p_symbol p) \<and> signal p = SELL \<and> min_confidence \<le> confidence p")
    case True
    obtain ok s' where x: "execute_trade e p s = (ok, s')" by (cases "execute_trade e p s")
    have "never_overdrawn m s' \<and> quantities_nonneg (portfolio s')"
      using execute_trade_sell_solvent[of m s p e] Cons.prems True x by simp
    then have "never_overdrawn m (snd (phase1_exits e ps (if ok then n + 1 else n, s'))) \<and>
        quantities_nonneg (portfolio (snd (phase1_exits e ps (if ok then n + 1 else n, s'))))"
      using Cons.prems(3) by (intro Cons.IH) simp_all
    with True x show ?thesis by simp
  next
    case False
    have "never_overdrawn m (snd (phase1_exits e ps (n, s))) \<and>
        quantities_nonneg (portfolio (snd (phase1_exits e ps (n, s))))"
      using Cons.prems by (intro Cons.IH) simp_all
    with False show ?thesis by auto
  qed
qed

lemma all_data_of_member:
  "all_data_of ds k = Some d \<Longrightarrow> d \<in> set ds"
proof -
  have "fold (\<lambda>d m. m(d_symbol d \<mapsto> d)) ds m k = Some d \<Longrightarrow> d \<in> set ds \<or> m k = Some d" for m
  proof (induction ds arbitrary: m)
    case Nil
    then show ?case by simp
  next
    case (Cons a ds)
    from Cons.prems have "fold (\<lambda>d m. m(d_symbol d \<mapsto> d)) ds (m(d_symbol a \<mapsto> a)) k = Some d"
      by (simp only: fold.simps o_apply)
    then have "d \<in> set ds \<or> (m(d_symbol a \<mapsto> a)) k = Some d"
      by (rule Cons.IH)
    then show ?case by (auto split: if_splits)
  qed
  from this[of Map.empty] show "all_data_of ds k = Some d \<Longrightarrow> d \<in> set ds"
    by (simp add: all_data_of_def)
qed

lemma symbols_to_close_prices:
  "symbols_to_close all_data pf = Inr closing \<Longrightarrow>
   (\<And>k d. all_data k = Some d \<Longrightarrow> 0 \<le> d_price d) \<Longrightarrow>
   \<forall>(k, pr, reason) \<in> set closing. 0 \<le> pr"
proof (induction all_data pf arbitrary: closing rule: symbols_to_close.induct)
  case (1 all_data)
  then show ?case by simp
next
  case (2 all_data symbol position rest)
  show ?case
  proof (cases "all_data symbol")
    case None
    with 2 show ?thesis by simp
  next
    case (Some d)
    have nz: "entry_price position \<noteq> 0"
      using "2.prems"(1) Some by (auto split: if_splits)
    obtain cl where cl: "symbols_to_close all_data rest = Inr cl"
      using "2.prems"(1) Some nz by (cases "symbols_to_close all_data rest") (auto simp: Let_def)
    have ih: "\<forall>(k, pr, reason) \<in> set cl. 0 \<le> pr"
      using "2.IH"(2)[OF Some nz refl cl] "2.prems"(2) by blast
    have "0 \<le> d_price d" using "2.prems"(2) Some by blast
    with "2.prems"(1) Some nz cl ih show ?thesis
      by (auto simp: Let_def split: if_splits)
  qed
qed

lemma close_all_solvent:
  "never_overdrawn m s \<Longrightarrow> quantities_nonneg (portfolio s) \<Longrightarrow>
   \<forall>(k, pr, reason) \<in> set closing. 0 \<le> pr \<Longrightarrow>
   never_overdrawn m (close_all e closing s) \<and> quantities_nonneg (portfolio (close_all e closing s))"
proof (induction closing arbitrary: s)
  case Nil
  then show ?case by simp
next
  case (Cons c closing)
  obtain k pr reason where c: "c = (k, pr, reason)" by (cases c)
  have "0 \<le> pr" using Cons.prems(3) c by simp
  then have "never_overdrawn m (close_position e k pr reason s) \<and>
      quantities_nonneg (portfolio (close_position e k pr reason s))"
    using Cons.prems(1,2) by (intro close_position_solvent)
  then have "never_overdrawn m (close_all e closing (close_position e k pr reason s)) \<and>
      quantities_nonneg (portfolio (close_all e closing (close_position e k pr reason s)))"
    using Cons.prems(3) by (intro Cons.IH) simp_all
  with c show ?case by simp
qed

lemma check_exit_conditions_solvent:
  assumes "check_exit_conditions e crypto_data forex_data s = Inr s'"
    "never_overdrawn m s" "quantities_nonneg (portfolio s)"
    "\<forall>d \<in> set (crypto_data @ forex_data). 0 \<le> d_price d"
  shows "never_overdrawn m s'"
proof -
  from assms(1) obtain closing where
    cl: "symbols_to_close (all_data_of (crypto_data @ forex_data)) (portfolio s) = Inr closing"
    and s': "s' = close_all e closing s"
    by (auto simp: check_exit_conditions_def split: sum.splits)
  have "\<forall>(k, pr, reason) \<in> set closing. 0 \<le> pr"
    using cl
  proof (rule symbols_to_close_prices)
    fix k d
    assume "all_data_of (crypto_data @ forex_data) k = Some d"
    then have "d \<in> set (crypto_data @ forex_data)" by (rule all_data_of_member)
    with assms(4) show "0 \<le> d_price d" by blast
  qed
  with assms(2,3) show ?thesis
    unfolding s' using close_all_solvent by blast
qed

lemma phase2_entries_solvent:
  "never_overdrawn m s \<Longrightarrow> \<forall>p \<in> set ps. confidence p \<le> 1 \<Longrightarrow>
   never_overdrawn m (snd (phase2_entries e ps (n, s)))"
proof (induction ps arbitrary: n s)
  case Nil
  then show ?case by simp
next
  case (Cons p ps)
  show ?case
  proof (cases "should_trade p s")
    case True
    obtain ok s' where x: "execute_trade e p s = (ok, s')" by (cases "execute_trade e p s")
    have "never_overdrawn m s'"
      using execute_trade_buy_solvent[of m s p e] Cons.prems True x
      by (simp add: should_trade_buy)
    then have "never_overdrawn m (snd (phase2_entries e ps (if ok then n + 1 else n, s')))"
      using Cons.prems(2) by (intro Cons.IH) simp_all
    with True x show ?thesis by simp
  next
    case False
    have "never_overdrawn m (snd (phase2_entries e ps (n, s)))"
      using Cons.prems by (intro Cons.IH) simp_all
    with False show ?thesis by simp
  qed
qed

lemma trading_phases_solvent:
  assumes "never_overdrawn m s" "quantities_nonneg (portfolio s)"
    "\<forall>p \<in> set all_predictions. confidence p \<le> 1 \<and> 0 \<le> current_price p"
    "\<forall>d \<in> set (crypto_data @ forex_data). 0 \<le> d_price d"
  shows "never_overdrawn m (snd (trading_phases e crypto_data forex_data all_predictions s))"
proof -
  obtain n1 s1 where p1: "phase1_exits e all_predictions (0, s) = (n1, s1)"
    by (cases "phase1_exits e all_predictions (0, s)")
  have i1: "never_overdrawn m s1 \<and> quantities_nonneg (portfolio s1)"
    using phase1_exits_solvent[of m s all_predictions e 0] assms(1,2,3) p1 by simp
  show ?thesis
  proof (cases "check_exit_conditions e crypto_data forex_data s1")
    case (Inl err)
    with p1 i1 show ?thesis by (simp add: trading_phases_def)
  next
    case (Inr s2)
    have i2: "never_overdrawn m s2"
      using check_exit_conditions_solvent[OF Inr] i1 assms(4) by blast
    have "never_overdrawn m (snd (phase2_entries e all_predictions (n1, s2)))"
      using i2 assms(3) by (intro phase2_entries_solvent) simp_all
    with p1 Inr show ?thesis by (simp add: trading_phases_def case_prod_beta)
  qed
qed

lemma execute_trade_sell_credits:
  assumes "quantities_nonneg (portfolio s)" "signal p = SELL" "0 \<le> current_price p"
  shows "wallet_balance s \<le> wallet_balance (snd (execute_trade e p s))"
proof (cases "map_of (portfolio s) (p_symbol p)")
  case None
  then show ?thesis
    using assms(2) by (simp add: execute_trade_sell_absent holds_def)
next
  case (Some pos)
  show ?thesis
  proof (cases "entry_price pos = 0")
    case True
    with Some assms show ?thesis by (simp add: execute_trade_sell_zero)
  next
    case False
    have "0 \<le> p_quantity pos"
      using assms(1) Some by (rule quantities_nonneg_lookup)
    then show ?thesis
      using assms(3) by (simp add: execute_trade_sell[OF assms(2) Some False])
  qed
qed

lemma close_position_credits:
  assumes "quantities_nonneg (portfolio s)" "0 \<le> pr"
  shows "wallet_balance s \<le> wallet_balance (close_position e k pr reason s)"
proof (cases "map_of (portfolio s) k")
  case None
  then show ?thesis by (simp add: close_position_absent)
next
  case (Some pos)
  show ?thesis
  proof (cases "entry_price pos = 0")
    case True
    with Some show ?thesis by (simp add: close_position_zero)
  next
    case False
    have "0 \<le> p_quantity pos"
      using assms(1) Some by (rule quantities_nonneg_lookup)
    then show ?thesis
      using assms(2) by (simp add: close_position_held[OF Some False])
  qed
qed

lemma execute_trade_buy_debits:
  assumes "0 \<le> wallet_balance s" "signal p = BUY" "confidence p \<le> 1"
  shows "0 \<le> wallet_balance (snd (execute_trade e p s))"
proof (cases "current_price p = 0")
  case True
  with assms(1,2) show ?thesis by (simp add: execute_trade_buy_zero)
next
  case False
  have "0 \<le> wallet_balance s - wallet_balance s * max_position_size * confidence p"
    using assms(1,3) by (rule debit_bounded)
  then show ?thesis
    by (simp add: execute_trade_buy[OF assms(2) False])
qed

text \<open>
  Claim C9. Let the wallet be non-negative when the trading phases begin, let every
  open quantity be non-negative, every prediction have a confidence of at most 1 and a
  non-negative price, and every quote be non-negative. Then the trader is not
  overdrawn during the session: the wallet is non-negative when the phases end, and so
  is the balance after each trade that the ledger received in the session. The steps:
  a BUY leaves a non-negative wallet, since it debits at most a fifth of it; a SELL and
  a closed position do not lower the wallet.
\<close>

theorem wallet_never_negative:
  "(0 \<le> wallet_balance s \<and> quantities_nonneg (portfolio s) \<and>
    (\<forall>p \<in> set all_predictions. confidence p \<le> 1 \<and> 0 \<le> current_price p) \<and>
    (\<forall>d \<in> set (crypto_data @ forex_data). 0 \<le> d_price d) \<longrightarrow>
      never_overdrawn (length (trading_table s))
        (snd (trading_phases e crypto_data forex_data all_predictions s))) \<and>
   (0 \<le> wallet_balance s \<and> signal p = BUY \<and> confidence p \<le> 1 \<longrightarrow>
      wallet_balance s * max_position_size * confidence p \<le> wallet_balance s \<and>
      0 \<le> wallet_balance (snd (execute_trade e p s))) \<and>
   (quantities_nonneg (portfolio s) \<and> signal p = SELL \<and> 0 \<le> current_price p \<longrightarrow>
      wallet_balance s \<le> wallet_balance (snd (execute_trade e p s))) \<and>
   (quantities_nonneg (portfolio s) \<and> 0 \<le> pr \<longrightarrow>
      wallet_balance s \<le> wallet_balance (close_position e k pr reason s))"
proof (intro conjI impI)
  assume "0 \<le> wallet_balance s \<and> quantities_nonneg (portfolio s) \<and>
    (\<forall>p \<in> set all_predictions. confidence p \<le> 1 \<and> 0 \<le> current_price p) \<and>
    (\<forall>d \<in> set (crypto_data @ forex_data). 0 \<le> d_price d)"
  then show "never_overdrawn (length (trading_table s))
      (snd (trading_phases e crypto_data forex_data all_predictions s))"
    by (intro trading_phases_solvent) (simp_all add: never_overdrawn_def)
next
  assume a: "0 \<le> wallet_balance s \<and> signal p = BUY \<and> confidence p \<le> 1"
  then have "0 \<le> wallet_balance s - wallet_balance s * max_position_size * confidence p"
    by (intro debit_bounded) simp_all
  then show "wallet_balance s * max_position_size * confidence p \<le> wallet_balance s"
    by simp
  from a show "0 \<le> wallet_balance (snd (execute_trade e p s))"
    using execute_trade_buy_debits[of s p e] by simp
next
  assume "quantities_nonneg (portfolio s) \<and> signal p = SELL \<and> 0 \<le> current_price p"
  then show "wallet_balance s \<le> wallet_balance (snd (execute_trade e p s))"
    by (intro execute_trade_sell_credits) simp_all
next
  assume "quantities_nonneg (portfolio s) \<and> 0 \<le> pr"
  then show "wallet_balance s \<le> wallet_balance (close_position e k pr reason s)"
    by (intro close_position_credits) simp_all
qed

theorem wallet_never_negative_witness:
  "0 \<le> wallet_balance eth_holder \<and> quantities_nonneg (portfolio eth_holder) \<and>
   confidence eth_sell_signal \<le> 1 \<and> 0 \<le> current_price eth_sell_signal \<and>
   confidence btc_buy_signal \<le> 1 \<and> 0 \<le> current_price btc_buy_signal \<and>
   list_all (\<lambda>d. 0 \<le> d_price d) (session_quotes @ []) \<and>
   signal btc_buy_signal = BUY \<and> signal eth_sell_signal = SELL \<and>
   never_overdrawn (length (trading_table eth_holder))
     (snd (trading_phases calm_env session_quotes [] [eth_sell_signal, btc_buy_signal] eth_holder)) \<and>
   0 \<le> wallet_balance (snd (execute_trade calm_env btc_buy_signal eth_holder)) \<and>
   wallet_balance eth_holder \<le> wallet_balance (snd (execute_trade calm_env eth_sell_signal eth_holder)) \<and>
   wallet_balance eth_holder \<le> wallet_balance (close_position calm_env ''ETH'' 12 ''TAKE_PROFIT'' eth_holder)"
proof -
  have h1: "0 \<le> wallet_balance eth_holder"
    by (simp add: eth_holder_def)
  have h2: "quantities_nonneg (portfolio eth_holder)"
    by (simp add: quantities_nonneg_def eth_holder_def)
  have h3: "\<forall>p \<in> set [eth_sell_signal, btc_buy_signal]. confidence p \<le> 1 \<and> 0 \<le> current_price p"
    by (simp add: eth_sell_signal_def btc_buy_signal_def)
  have h4: "\<forall>d \<in> set (session_quotes @ []). 0 \<le> d_price d"
    by (simp add: session_quotes_def)
  have h5: "signal btc_buy_signal = BUY" "confidence btc_buy_signal \<le> 1"
    "0 \<le> wallet_balance eth_holder"
    by (simp_all add: btc_buy_signal_def eth_holder_def)
  have h6: "signal eth_sell_signal = SELL" "0 \<le> current_price eth_sell_signal"
    by (simp_all add: eth_sell_signal_def)
  note buy = wallet_never_negative[of eth_holder "[eth_sell_signal, btc_buy_signal]"
      session_quotes "[]" calm_env btc_buy_signal 12 "''ETH''" "''TAKE_PROFIT''"]
  note sell = wallet_never_negative[of eth_holder "[eth_sell_signal, btc_buy_signal]"
      session_quotes "[]" calm_env eth_sell_signal 12 "''ETH''" "''TAKE_PROFIT''"]
  have h7: "list_all (\<lambda>d. 0 \<le> d_price d) (session_quotes @ [])"
    by (simp add: session_quotes_def)
  from buy sell h1 h2 h3 h4 h5 h6 h7 show ?thesis by simp
qed

section \<open>Positions without a quote\<close>

lemma all_data_of_absent:
  "all_data_of ds k = None \<longleftrightarrow> k \<notin> d_symbol ` set ds"
proof -
  define ins where "ins = (\<lambda>(d :: market_data) (m :: string \<rightharpoonup> market_data). m(d_symbol d \<mapsto> d))"
  have ins: "ins a m k = (if k = d_symbol a then Some a else m k)" for a m
    by (simp add: ins_def)
  have "fold ins ds m k = None \<longleftrightarrow> m k = None \<and> k \<notin> d_symbol ` set ds" for m
  proof (induction ds arbitrary: m)
    case Nil
    then show ?case by simp
  next
    case (Cons a ds)
    have "fold ins (a # ds) m k = fold ins ds (ins a m) k"
      by simp
    also have "\<dots> = None \<longleftrightarrow> ins a m k = None \<and> k \<notin> d_symbol ` set ds"
      by (rule Cons.IH)
    also have "\<dots> \<longleftrightarrow> m k = None \<and> k \<notin> d_symbol ` set (a # ds)"
      by (auto simp: ins)
    finally show ?case .
  qed
  from this[of Map.empty] show ?thesis by (simp add: all_data_of_def ins_def)
qed

lemma symbols_to_close_skip:
  "all_data k = None \<Longrightarrow>
   symbols_to_close all_data (AList.delete k pf) = symbols_to_close all_data pf"
proof (induction pf)
  case Nil
  then show ?case by simp
next
  case (Cons x pf)
  obtain k' pos' where x: "x = (k', pos')" by (cases x)
  show ?case
  proof (cases "k' = k")
    case True
    with Cons x show ?thesis by simp
  next
    case False
    with Cons x show ?thesis by (cases "all_data k'") (simp_all add: Let_def)
  qed
qed

lemma symbols_to_close_quoted:
  "symbols_to_close all_data pf = Inr closing \<Longrightarrow>
   \<forall>(k', pr, reason) \<in> set closing. all_data k' \<noteq> None \<and> k' \<in> fst ` set pf"
proof (induction all_data pf arbitrary: closing rule: symbols_to_close.induct)
  case (1 all_data)
  then show ?case by simp
next
  case (2 all_data symbol position rest)
  show ?case
  proof (cases "all_data symbol")
    case None
    with 2 show ?thesis by fastforce
  next
    case (Some d)
    have nz: "entry_price position \<noteq> 0"
      using "2.prems"(1) Some by (auto split: if_splits)
    obtain cl where cl: "symbols_to_close all_data rest = Inr cl"
      using "2.prems"(1) Some nz by (cases "symbols_to_close all_data rest") (auto simp: Let_def)
    have ih: "\<forall>(k', pr, reason) \<in> set cl. all_data k' \<noteq> None \<and> k' \<in> fst ` set rest"
      using "2.IH"(2)[OF Some nz refl cl] .
    from "2.prems"(1) Some nz cl have "set closing \<subseteq> insert (symbol, d_price d, ''STOP_LOSS'')
        (insert (symbol, d_price d, ''TAKE_PROFIT'') (set cl))"
      by (auto simp: Let_def split: if_splits)
    with ih Some show ?thesis by fastforce
  qed
qed

lemma symbols_to_close_none_quoted:
  "\<forall>k \<in> fst ` set pf. all_data k = None \<Longrightarrow> symbols_to_close all_data pf = Inr []"
  by (induction pf) auto

lemma close_position_other:
  assumes "k' \<noteq> k"
  shows "map_of (portfolio (close_position e k' pr reason s)) k = map_of (portfolio s) k"
    and "filter (\<lambda>r. t_symbol r = Some k) (trading_table (close_position e k' pr reason s))
           = filter (\<lambda>r. t_symbol r = Some k) (trading_table s)"
proof -
  show "map_of (portfolio (close_position e k' pr reason s)) k = map_of (portfolio s) k"
  proof (cases "map_of (portfolio s) k'")
    case None
    then show ?thesis by (simp add: close_position_absent)
  next
    case (Some pos)
    show ?thesis
    proof (cases "entry_price pos = 0")
      case True
      with Some show ?thesis by (simp add: close_position_zero)
    next
      case False
      show ?thesis
        using assms by (simp add: close_position_held(1)[OF Some False])
    qed
  qed
  show "filter (\<lambda>r. t_symbol r = Some k) (trading_table (close_position e k' pr reason s))
           = filter (\<lambda>r. t_symbol r = Some k) (trading_table s)"
  proof (cases "map_of (portfolio s) k'")
    case None
    then show ?thesis by (simp add: close_position_absent)
  next
    case (Some pos)
    show ?thesis
    proof (cases "entry_price pos = 0")
      case True
      with Some show ?thesis by (simp add: close_position_zero)
    next
      case False
      show ?thesis
        using assms by (simp add: close_position_held(4)[OF Some False])
    qed
  qed
qed

lemma close_position_without:
  assumes "k' \<noteq> k"
  shows "close_position e k' pr reason (s\<lparr>portfolio := AList.delete k (portfolio s)\<rparr>)
       = (close_position e k' pr reason s)
           \<lparr>portfolio := AList.delete k (portfolio (close_position e k' pr reason s))\<rparr>"
proof (cases "map_of (portfolio s) k'")
  case None
  then have "map_of (AList.delete k (portfolio s)) k' = None"
    using assms by simp
  with None show ?thesis by (simp add: close_position_absent)
next
  case (Some pos)
  then have d: "map_of (AList.delete k (portfolio s)) k' = Some pos"
    using assms by simp
  show ?thesis
  proof (cases "entry_price pos = 0")
    case True
    with Some d show ?thesis by (simp add: close_position_zero)
  next
    case False
    note a = close_position_held[OF Some False, of e pr reason]
    have d': "map_of (portfolio (s\<lparr>portfolio := AList.delete k (portfolio s)\<rparr>)) k' = Some pos"
      using d by simp
    note b = close_position_held[OF d' False, of e pr reason]
    show ?thesis
      by (rule trader_eqI) (simp_all add: a b delete_twist)
  qed
qed

lemma close_all_other:
  "\<forall>(k', pr, reason) \<in> set closing. k' \<noteq> k \<Longrightarrow>
   map_of (portfolio (close_all e closing s)) k = map_of (portfolio s) k \<and>
   filter (\<lambda>r. t_symbol r = Some k) (trading_table (close_all e closing s))
     = filter (\<lambda>r. t_symbol r = Some k) (trading_table s) \<and>
   close_all e closing (s\<lparr>portfolio := AList.delete k (portfolio s)\<rparr>)
     = (close_all e closing s)\<lparr>portfolio := AList.delete k (portfolio (close_all e closing s))\<rparr>"
proof (induction closing arbitrary: s)
  case Nil
  then show ?case by simp
next
  case (Cons c closing)
  obtain k' pr reason where c: "c = (k', pr, reason)" by (cases c)
  have ne: "k' \<noteq> k" using Cons.prems c by simp
  have rest: "\<forall>(k', pr, reason) \<in> set closing. k' \<noteq> k" using Cons.prems by auto
  note ih = Cons.IH[OF rest, of "close_position e k' pr reason s"]
  show ?case
    using ih by (simp add: c close_position_other[OF ne] close_position_without[OF ne])
qed

text \<open>
  Claim C10. Let a symbol be open and absent from the fetched prices. Then
  \<^verbatim>\<open>check_exit_conditions\<close> passes the position over: the first loop yields the same
  exits, or the same exception, as it does without the position; when the call
  returns, the position is still open and unchanged, the ledger has received no record
  for the symbol, and wallet, ledger and the other positions are those that the call
  yields when the position is not there. When no open symbol has a price, the call
  returns the trader as it was.
\<close>

theorem unquoted_position_untouched:
  "(map_of (portfolio s) k = Some pos \<and> k \<notin> d_symbol ` set (crypto_data @ forex_data) \<longrightarrow>
      symbols_to_close (all_data_of (crypto_data @ forex_data)) (portfolio s)
        = symbols_to_close (all_data_of (crypto_data @ forex_data)) (AList.delete k (portfolio s)) \<and>
      (\<forall>s'. check_exit_conditions e crypto_data forex_data s = Inr s' \<longrightarrow>
         map_of (portfolio s') k = Some pos \<and>
         filter (\<lambda>r. t_symbol r = Some k) (trading_table s')
           = filter (\<lambda>r. t_symbol r = Some k) (trading_table s) \<and>
         check_exit_conditions e crypto_data forex_data
             (s\<lparr>portfolio := AList.delete k (portfolio s)\<rparr>)
           = Inr (s'\<lparr>portfolio := AList.delete k (portfolio s')\<rparr>))) \<and>
   ((\<forall>k' \<in> fst ` set (portfolio s). k' \<notin> d_symbol ` set (crypto_data @ forex_data)) \<longrightarrow>
      check_exit_conditions e crypto_data forex_data s = Inr s)"
proof (intro conjI impI allI)
  let ?ad = "all_data_of (crypto_data @ forex_data)"
  {
    assume a: "map_of (portfolio s) k = Some pos \<and> k \<notin> d_symbol ` set (crypto_data @ forex_data)"
    then have none: "?ad k = None" by (simp add: all_data_of_absent)
    show skip: "symbols_to_close ?ad (portfolio s) = symbols_to_close ?ad (AList.delete k (portfolio s))"
      using symbols_to_close_skip[of ?ad k "portfolio s"] none by simp
    fix s'
    assume c: "check_exit_conditions e crypto_data forex_data s = Inr s'"
    then obtain closing where cl: "symbols_to_close ?ad (portfolio s) = Inr closing"
      and s': "s' = close_all e closing s"
      by (auto simp: check_exit_conditions_def split: sum.splits)
    have ne: "\<forall>(k', pr, reason) \<in> set closing. k' \<noteq> k"
      using symbols_to_close_quoted[OF cl] none by fastforce
    note frame = close_all_other[OF ne, of e s]
    show "map_of (portfolio s') k = Some pos"
      using frame a by (simp add: s')
    show "filter (\<lambda>r. t_symbol r = Some k) (trading_table s')
           = filter (\<lambda>r. t_symbol r = Some k) (trading_table s)"
      using frame by (simp add: s')
    show "check_exit_conditions e crypto_data forex_data
             (s\<lparr>portfolio := AList.delete k (portfolio s)\<rparr>)
           = Inr (s'\<lparr>portfolio := AList.delete k (portfolio s')\<rparr>)"
      using frame cl skip by (simp add: check_exit_conditions_def s')
  }
  assume "\<forall>k' \<in> fst ` set (portfolio s). k' \<notin> d_symbol ` set (crypto_data @ forex_data)"
  then have "\<forall>k' \<in> fst ` set (portfolio s). ?ad k' = None"
    by (simp add: all_data_of_absent)
  then have "symbols_to_close ?ad (portfolio s) = Inr []"
    by (rule symbols_to_close_none_quoted)
  then show "check_exit_conditions e crypto_data forex_data s = Inr s"
    by (simp add: check_exit_conditions_def)
qed

theorem unquoted_position_untouched_witness:
  "map_of (portfolio eth_sol_holder) ''SOL'' =
     Some \<lparr>p_quantity = 3, entry_price = 100, entry_time = ''2026-10-21T09:00:00'',
           trade_id = ''t-1'', market_type = ''crypto''\<rparr> \<and>
   ''SOL'' \<notin> d_symbol ` set (session_quotes @ []) \<and>
   symbols_to_close (all_data_of (session_quotes @ [])) (portfolio eth_sol_holder)
     = symbols_to_close (all_data_of (session_quotes @ []))
         (AList.delete ''SOL'' (portfolio eth_sol_holder)) \<and>
   map fst (portfolio sol_holder) = [''SOL''] \<and>
   check_exit_conditions calm_env session_quotes [] sol_holder = Inr sol_holder"
proof -
  have h1: "map_of (portfolio eth_sol_holder) ''SOL'' =
     Some \<lparr>p_quantity = 3, entry_price = 100, entry_time = ''2026-10-21T09:00:00'',
           trade_id = ''t-1'', market_type = ''crypto''\<rparr>"
    by (simp add: eth_sol_holder_def)
  have h2: "''SOL'' \<notin> d_symbol ` set (session_quotes @ [])"
    by (simp add: session_quotes_def)
  have h3: "\<forall>k' \<in> fst ` set (portfolio sol_holder). k' \<notin> d_symbol ` set (session_quotes @ [])"
    by (simp add: sol_holder_def session_quotes_def)
  from unquoted_position_untouched[of eth_sol_holder "''SOL''" _ session_quotes "[]" calm_env] h1 h2
  have a: "symbols_to_close (all_data_of (session_quotes @ [])) (portfolio eth_sol_holder)
     = symbols_to_close (all_data_of (session_quotes @ []))
         (AList.delete ''SOL'' (portfolio eth_sol_holder))"
    by blast
  from unquoted_position_untouched[of sol_holder "''SOL''" _ session_quotes "[]" calm_env] h3
  have b: "check_exit_conditions calm_env session_quotes [] sol_holder = Inr sol_holder"
    by blast
  have h4: "map fst (portfolio sol_holder) = [''SOL'']"
    by (simp add: sol_holder_def)
  from h1 h2 h4 a b show ?thesis by blast
qed

section \<open>One exit per symbol\<close>

lemma sells_of_append: "sells_of k (tbl @ rs) = sells_of k tbl @ sells_of k rs"
  by (simp add: sells_of_def)

lemma sells_of_by_symbol:
  "sells_of k tbl = filter (\<lambda>r. action r = Some ''SELL'') (filter (\<lambda>r. t_symbol r = Some k) tbl)"
  by (simp add: sells_of_def conj_commute)

lemma execute_trade_no_sell_of:
  assumes "p_symbol p \<noteq> k \<or> signal p \<noteq> SELL"
  shows "sells_of k (trading_table (snd (execute_trade e p s))) = sells_of k (trading_table s)"
proof (cases "signal p")
  case BUY
  show ?thesis
  proof (cases "current_price p = 0")
    case True
    with BUY show ?thesis by (simp add: execute_trade_buy_zero)
  next
    case False
    show ?thesis
      by (simp add: execute_trade_buy(5)[OF BUY False] sells_of_def)
  qed
next
  case HOLD
  then show ?thesis by (simp add: execute_trade_hold)
next
  case SELL
  with assms have ne: "p_symbol p \<noteq> k" by simp
  show ?thesis
  proof (cases "map_of (portfolio s) (p_symbol p)")
    case None
    with SELL show ?thesis by (simp add: execute_trade_sell_absent holds_def)
  next
    case (Some pos)
    show ?thesis
    proof (cases "entry_price pos = 0")
      case True
      with SELL Some show ?thesis by (simp add: execute_trade_sell_zero)
    next
      case False
      show ?thesis
        using ne by (simp add: execute_trade_sell(5)[OF SELL Some False] sells_of_def)
    qed
  qed
qed

lemma execute_trade_sell_other:
  assumes "signal p = SELL" "p_symbol p \<noteq> k"
  shows "map_of (portfolio (snd (execute_trade e p s))) k = map_of (portfolio s) k"
proof (cases "map_of (portfolio s) (p_symbol p)")
  case None
  with assms show ?thesis by (simp add: execute_trade_sell_absent holds_def)
next
  case (Some pos)
  show ?thesis
  proof (cases "entry_price pos = 0")
    case True
    with assms Some show ?thesis by (simp add: execute_trade_sell_zero)
  next
    case False
    show ?thesis
      using assms(2) by (simp add: execute_trade_sell(2)[OF assms(1) Some False])
  qed
qed

text \<open>Once the symbol is closed, none of the three phases writes a SELL for it.\<close>

lemma phase1_exits_closed:
  "\<not> holds (portfolio s) k \<Longrightarrow>
   \<not> holds (portfolio (snd (phase1_exits e ps (n, s)))) k \<and>
   sells_of k (trading_table (snd (phase1_exits e ps (n, s)))) = sells_of k (trading_table s)"
proof (induction ps arbitrary: n s)
  case Nil
  then show ?case by simp
next
  case (Cons p0 ps)
  show ?case
  proof (cases "holds (portfolio s) (p_symbol p0) \<and> signal p0 = SELL \<and> min_confidence \<le> confidence p0")
    case True
    then have ne: "p_symbol p0 \<noteq> k" using Cons.prems by auto
    obtain ok s1 where x: "execute_trade e p0 s = (ok, s1)" by (cases "execute_trade e p0 s")
    have "map_of (portfolio s1) k = map_of (portfolio s) k"
      using execute_trade_sell_other[of p0 k e s] True ne x by simp
    then have closed: "\<not> holds (portfolio s1) k"
      using Cons.prems by (simp add: holds_def)
    have tbl: "sells_of k (trading_table s1) = sells_of k (trading_table s)"
      using execute_trade_no_sell_of[of p0 k e s] ne x by simp
    note ih = Cons.IH[OF closed, of "if ok then n + 1 else n"]
    from True x ih tbl show ?thesis by simp
  next
    case False
    note ih = Cons.IH[OF Cons.prems, of n]
    from False ih show ?thesis by auto
  qed
qed

lemma check_exit_conditions_closed:
  assumes "\<not> holds (portfolio s) k" "check_exit_conditions e crypto_data forex_data s = Inr s'"
  shows "sells_of k (trading_table s') = sells_of k (trading_table s)"
proof -
  from assms(2) obtain closing where
    cl: "symbols_to_close (all_data_of (crypto_data @ forex_data)) (portfolio s) = Inr closing"
    and s': "s' = close_all e closing s"
    by (auto simp: check_exit_conditions_def split: sum.splits)
  have "k \<notin> fst ` set (portfolio s)"
    using assms(1) by (simp add: holds_keys)
  then have ne: "\<forall>(k', pr, reason) \<in> set closing. k' \<noteq> k"
    using symbols_to_close_quoted[OF cl] by fastforce
  from close_all_other[OF ne, of e s] show ?thesis
    by (simp add: s' sells_of_by_symbol)
qed

lemma phase2_entries_no_sell:
  "sells_of k (trading_table (snd (phase2_entries e ps (n, s)))) = sells_of k (trading_table s)"
proof (induction ps arbitrary: n s)
  case Nil
  then show ?case by simp
next
  case (Cons p0 ps)
  show ?case
  proof (cases "should_trade p0 s")
    case True
    then have "signal p0 \<noteq> SELL" by (simp add: should_trade_buy)
    obtain ok s1 where x: "execute_trade e p0 s = (ok, s1)" by (cases "execute_trade e p0 s")
    have tbl: "sells_of k (trading_table s1) = sells_of k (trading_table s)"
      using execute_trade_no_sell_of[of p0 k e s] \<open>signal p0 \<noteq> SELL\<close> x by simp
    from True x tbl Cons.IH[of "if ok then n + 1 else n" s1] show ?thesis by simp
  next
    case False
    with Cons.IH[of n s] show ?thesis by simp
  qed
qed

text \<open>The exit of phase 1 for a held symbol that the model asks to sell.\<close>

lemma phase1_exits_sells_held:
  "map_of (portfolio s) k = Some pos \<Longrightarrow> entry_price pos \<noteq> 0 \<Longrightarrow>
   p \<in> set ps \<Longrightarrow> p_symbol p = k \<Longrightarrow> signal p = SELL \<Longrightarrow> min_confidence \<le> confidence p \<Longrightarrow>
   \<exists>rs. sells_of k (trading_table (snd (phase1_exits e ps (n, s)))) = sells_of k (trading_table s) @ rs \<and>
        \<not> holds (portfolio (snd (phase1_exits e ps (n, s)))) k \<and>
        length rs \<le> 1 \<and>
        list_all (\<lambda>r. exitReason r = None \<and> originalTradeId r = Some (trade_id pos)) rs \<and>
        ((\<forall>i. \<not> put_item_raises e i) \<longrightarrow> length rs = 1)"
proof (induction ps arbitrary: n s)
  case Nil
  then show ?case by simp
next
  case (Cons p0 ps)
  have held: "holds (portfolio s) k"
    using Cons.prems(1) by (simp add: holds_def)
  show ?case
  proof (cases "p_symbol p0 = k \<and> signal p0 = SELL \<and> min_confidence \<le> confidence p0")
    case True
    then have sell: "signal p0 = SELL" and at: "map_of (portfolio s) (p_symbol p0) = Some pos"
      using Cons.prems(1) by simp_all
    note b = execute_trade_sell[OF sell at Cons.prems(2), of e]
    obtain ok s1 where x: "execute_trade e p0 s = (ok, s1)" by (cases "execute_trade e p0 s")
    have closed: "\<not> holds (portfolio s1) k"
      using b(2) x True by (simp add: holds_delete)
    obtain rs where rs: "trading_table s1 = trading_table s @ rs" "length rs \<le> 1"
      "list_all (\<lambda>r. exitReason r = None \<and> originalTradeId r = Some (trade_id pos)) rs"
      "list_all (\<lambda>r. t_symbol r = Some k \<and> action r = Some ''SELL'') rs"
      "(\<forall>i. \<not> put_item_raises e i) \<longrightarrow> length rs = 1"
    proof (cases "put_item_raises e (tick s)")
      case True
      then have "trading_table s1 = trading_table s @ []" using b(5) x by simp
      with True show ?thesis by (intro that[of "[]"]) auto
    next
      case False
      then obtain r where "trading_table s1 = trading_table s @ [r]" "exitReason r = None"
        "originalTradeId r = Some (trade_id pos)" "t_symbol r = Some k" "action r = Some ''SELL''"
        using b(5) x True by simp
      then show ?thesis by (intro that[of "[r]"]) auto
    qed
    have own: "sells_of k rs = rs"
      using rs(4) by (simp add: sells_of_def list_all_iff)
    note rest = phase1_exits_closed[OF closed, of e ps "if ok then n + 1 else n"]
    have run: "phase1_exits e (p0 # ps) (n, s) = phase1_exits e ps (if ok then n + 1 else n, s1)"
      using True held x by simp
    show ?thesis
      unfolding run using rest rs(1,2,3,5) own
      by (intro exI[of _ rs]) (simp add: sells_of_append)
  next
    case False
    with Cons.prems(3,4,5,6) have mem: "p \<in> set ps" by auto
    show ?thesis
    proof (cases "holds (portfolio s) (p_symbol p0) \<and> signal p0 = SELL \<and> min_confidence \<le> confidence p0")
      case True
      with False have ne: "p_symbol p0 \<noteq> k" by simp
      obtain ok s1 where x: "execute_trade e p0 s = (ok, s1)" by (cases "execute_trade e p0 s")
      have at: "map_of (portfolio s1) k = Some pos"
        using execute_trade_sell_other[of p0 k e s] True ne x Cons.prems(1) by simp
      have tbl: "sells_of k (trading_table s1) = sells_of k (trading_table s)"
        using execute_trade_no_sell_of[of p0 k e s] ne x by simp
      have run: "phase1_exits e (p0 # ps) (n, s) = phase1_exits e ps (if ok then n + 1 else n, s1)"
        using True x by simp
      from Cons.IH[OF at Cons.prems(2) mem Cons.prems(4,5,6), of "if ok then n + 1 else n"]
      show ?thesis unfolding run tbl .
    next
      case False
      then have run: "phase1_exits e (p0 # ps) (n, s) = phase1_exits e ps (n, s)"
        by auto
      from Cons.IH[OF Cons.prems(1,2) mem Cons.prems(4,5,6), of n]
      show ?thesis unfolding run .
    qed
  qed
qed

lemma symbols_to_close_take_profit:
  "map_of pf k = Some pos \<Longrightarrow> all_data k = Some d \<Longrightarrow> entry_price pos \<noteq> 0 \<Longrightarrow>
   take_profit_pct \<le> (d_price d - entry_price pos) / entry_price pos \<Longrightarrow>
   symbols_to_close all_data pf = Inr closing \<Longrightarrow>
   (k, d_price d, ''TAKE_PROFIT'') \<in> set closing"
proof (induction all_data pf arbitrary: closing rule: symbols_to_close.induct)
  case (1 all_data)
  then show ?case by simp
next
  case (2 all_data symbol position rest)
  show ?case
  proof (cases "symbol = k")
    case True
    then have p: "position = pos" using "2.prems"(1) by simp
    have "0 < take_profit_pct" "0 < stop_loss_pct"
      by (simp_all add: take_profit_pct_def stop_loss_pct_def)
    with "2.prems"(4) have "\<not> (d_price d - entry_price pos) / entry_price pos \<le> - stop_loss_pct"
      by linarith
    with "2.prems"(2,3,4,5) True p show ?thesis
      by (auto simp: Let_def split: sum.splits)
  next
    case False
    then have at: "map_of rest k = Some pos" using "2.prems"(1) by simp
    show ?thesis
    proof (cases "all_data symbol")
      case None
      with "2.IH"(1)[OF None at "2.prems"(2,3,4)] "2.prems"(5) show ?thesis by simp
    next
      case (Some d')
      have nz: "entry_price position \<noteq> 0"
        using "2.prems"(5) Some by (auto split: if_splits)
      obtain cl where cl: "symbols_to_close all_data rest = Inr cl"
        using "2.prems"(5) Some nz by (cases "symbols_to_close all_data rest") (auto simp: Let_def)
      have "(k, d_price d, ''TAKE_PROFIT'') \<in> set cl"
        using "2.IH"(2)[OF Some nz refl at "2.prems"(2,3,4) cl] .
      with "2.prems"(5) Some nz cl show ?thesis
        by (auto simp: Let_def split: if_splits)
    qed
  qed
qed

text \<open>
  A held symbol with a qualifying SELL prediction and a quote at or above the
  take-profit bound: phase 1 closes it, and whatever the ledger answers, the session
  stores at most one SELL record for it, the one of phase 1.
\<close>

lemma session_sells_held:
  assumes "map_of (portfolio s) k = Some pos"
    and "p \<in> set all_predictions" "p_symbol p = k" "signal p = SELL"
      "min_confidence \<le> confidence p"
    and "all_data_of (crypto_data @ forex_data) k = Some d" "entry_price pos \<noteq> 0"
      "take_profit_pct \<le> (d_price d - entry_price pos) / entry_price pos"
  shows "(\<forall>closing. symbols_to_close (all_data_of (crypto_data @ forex_data)) (portfolio s) = Inr closing
            \<longrightarrow> (k, d_price d, ''TAKE_PROFIT'') \<in> set closing) \<and>
         (\<exists>rs.
            sells_of k (trading_table (snd (phase1_exits e all_predictions (0, s))))
              = sells_of k (trading_table s) @ rs \<and>
            \<not> holds (portfolio (snd (phase1_exits e all_predictions (0, s)))) k \<and>
            sells_of k (trading_table
                (snd (trading_phases e crypto_data forex_data all_predictions s)))
              = sells_of k (trading_table s) @ rs \<and>
            length rs \<le> 1 \<and>
            list_all (\<lambda>r. exitReason r = None \<and> originalTradeId r = Some (trade_id pos)) rs \<and>
            ((\<forall>i. \<not> put_item_raises e i) \<longrightarrow> length rs = 1))"
proof
  show "\<forall>closing. symbols_to_close (all_data_of (crypto_data @ forex_data)) (portfolio s) = Inr closing
            \<longrightarrow> (k, d_price d, ''TAKE_PROFIT'') \<in> set closing"
    using symbols_to_close_take_profit[of "portfolio s" k pos
        "all_data_of (crypto_data @ forex_data)" d] assms(1,6,7,8) by blast
next
  obtain n1 s1 where p1: "phase1_exits e all_predictions (0, s) = (n1, s1)"
    by (cases "phase1_exits e all_predictions (0, s)")
  from phase1_exits_sells_held[OF assms(1,7,2,3,4,5), of e 0] p1
  obtain rs where rs: "sells_of k (trading_table s1) = sells_of k (trading_table s) @ rs"
    "\<not> holds (portfolio s1) k" "length rs \<le> 1"
    "list_all (\<lambda>r. exitReason r = None \<and> originalTradeId r = Some (trade_id pos)) rs"
    "(\<forall>i. \<not> put_item_raises e i) \<longrightarrow> length rs = 1"
    by auto
  have "sells_of k (trading_table (snd (trading_phases e crypto_data forex_data all_predictions s)))
      = sells_of k (trading_table s1)"
  proof (cases "check_exit_conditions e crypto_data forex_data s1")
    case (Inl err)
    with p1 show ?thesis by (simp add: trading_phases_def)
  next
    case (Inr s2)
    have "sells_of k (trading_table (snd (phase2_entries e all_predictions (n1, s2))))
        = sells_of k (trading_table s2)"
      by (rule phase2_entries_no_sell)
    also have "\<dots> = sells_of k (trading_table s1)"
      using rs(2) Inr by (rule check_exit_conditions_closed)
    finally show ?thesis
      using p1 Inr by (simp add: trading_phases_def case_prod_beta)
  qed
  with rs p1 show "\<exists>rs.
            sells_of k (trading_table (snd (phase1_exits e all_predictions (0, s))))
              = sells_of k (trading_table s) @ rs \<and>
            \<not> holds (portfolio (snd (phase1_exits e all_predictions (0, s)))) k \<and>
            sells_of k (trading_table
                (snd (trading_phases e crypto_data forex_data all_predictions s)))
              = sells_of k (trading_table s) @ rs \<and>
            length rs \<le> 1 \<and>
            list_all (\<lambda>r. exitReason r = None \<and> originalTradeId r = Some (trade_id pos)) rs \<and>
            ((\<forall>i. \<not> put_item_raises e i) \<longrightarrow> length rs = 1)"
    by (intro exI[of _ rs]) simp
qed

text \<open>
  Claim C7. Let a symbol be held when the trading phases begin, let the predictions
  hold a SELL for it with confidence at least the minimum, and let its quote put it at
  or above the take-profit bound, so that the risk monitor would close it. With a
  ledger that accepts its writes, the session records exactly one SELL trade for the
  symbol, and phase 1 generates it: the record is in the ledger when phase 1 ends, the
  position is closed by then, the record carries no exit reason and points to the
  trade that opened the position, and neither the risk monitor nor phase 2 adds a SELL
  for the symbol.
\<close>

theorem phase_ordering:
  assumes "map_of (portfolio s) k = Some pos"
    and "p \<in> set all_predictions" "p_symbol p = k" "signal p = SELL"
      "min_confidence \<le> confidence p"
    and "all_data_of (crypto_data @ forex_data) k = Some d" "entry_price pos \<noteq> 0"
      "take_profit_pct \<le> (d_price d - entry_price pos) / entry_price pos"
    and "\<forall>i. \<not> put_item_raises e i"
  shows "(\<forall>closing. symbols_to_close (all_data_of (crypto_data @ forex_data)) (portfolio s) = Inr closing
            \<longrightarrow> (k, d_price d, ''TAKE_PROFIT'') \<in> set closing) \<and>
         (\<exists>r.
            sells_of k (trading_table (snd (phase1_exits e all_predictions (0, s))))
              = sells_of k (trading_table s) @ [r] \<and>
            \<not> holds (portfolio (snd (phase1_exits e all_predictions (0, s)))) k \<and>
            sells_of k (trading_table
                (snd (trading_phases e crypto_data forex_data all_predictions s)))
              = sells_of k (trading_table s) @ [r] \<and>
            exitReason r = None \<and> originalTradeId r = Some (trade_id pos)) \<and>
         length (sells_of k (trading_table
                (snd (trading_phases e crypto_data forex_data all_predictions s))))
           = length (sells_of k (trading_table s)) + 1"
proof -
  from session_sells_held[OF assms(1-8), of e]
  obtain rs where risk: "\<forall>closing.
        symbols_to_close (all_data_of (crypto_data @ forex_data)) (portfolio s) = Inr closing
            \<longrightarrow> (k, d_price d, ''TAKE_PROFIT'') \<in> set closing"
    and rs: "sells_of k (trading_table (snd (phase1_exits e all_predictions (0, s))))
              = sells_of k (trading_table s) @ rs"
      "\<not> holds (portfolio (snd (phase1_exits e all_predictions (0, s)))) k"
      "sells_of k (trading_table
                (snd (trading_phases e crypto_data forex_data all_predictions s)))
              = sells_of k (trading_table s) @ rs"
      "list_all (\<lambda>r. exitReason r = None \<and> originalTradeId r = Some (trade_id pos)) rs"
      "(\<forall>i. \<not> put_item_raises e i) \<longrightarrow> length rs = 1"
    by blast
  from rs(5) assms(9) have "length rs = 1" by blast
  then obtain r where r: "rs = [r]"
    by (cases rs) simp_all
  have "exitReason r = None \<and> originalTradeId r = Some (trade_id pos)"
    using rs(4) r by simp
  with risk rs(1,2,3) r show ?thesis by auto
qed

lemma eth_eligible:
  "map_of (portfolio eth_holder) ''ETH'' =
     Some \<lparr>p_quantity = 2, entry_price = 10, entry_time = ''2026-10-20T09:00:00'',
           trade_id = ''t-0'', market_type = ''crypto''\<rparr>"
  "p_symbol eth_sell_signal = ''ETH''" "signal eth_sell_signal = SELL"
  "min_confidence \<le> confidence eth_sell_signal"
  "all_data_of (session_quotes @ []) ''ETH'' = Some \<lparr>d_symbol = ''ETH'', d_price = 12\<rparr>"
  "take_profit_pct \<le> (12 - 10) / (10 :: rat)"
  by (simp_all add: eth_holder_def eth_sell_signal_def min_confidence_def session_quotes_def
      all_data_of_def take_profit_pct_def)

theorem phase_ordering_witness:
  "map_of (portfolio eth_holder) ''ETH'' =
     Some \<lparr>p_quantity = 2, entry_price = 10, entry_time = ''2026-10-20T09:00:00'',
           trade_id = ''t-0'', market_type = ''crypto''\<rparr> \<and>
   p_symbol eth_sell_signal = ''ETH'' \<and>
   signal eth_sell_signal = SELL \<and> min_confidence \<le> confidence eth_sell_signal \<and>
   all_data_of (session_quotes @ []) ''ETH'' = Some \<lparr>d_symbol = ''ETH'', d_price = 12\<rparr> \<and>
   take_profit_pct \<le> (12 - 10) / (10 :: rat) \<and>
   \<not> put_item_raises calm_env 0 \<and>
   length (sells_of ''ETH'' (trading_table
       (snd (trading_phases calm_env session_quotes [] [eth_sell_signal, btc_buy_signal]
          eth_holder)))) = 1 \<and>
   \<not> holds (portfolio (snd (phase1_exits calm_env [eth_sell_signal, btc_buy_signal]
          (0, eth_holder)))) ''ETH''"
proof -
  have mem: "eth_sell_signal \<in> set [eth_sell_signal, btc_buy_signal]" by simp
  have nz: "entry_price \<lparr>p_quantity = 2, entry_price = 10, entry_time = ''2026-10-20T09:00:00'',
           trade_id = ''t-0'', market_type = ''crypto''\<rparr> \<noteq> (0 :: rat)" by simp
  have tp: "take_profit_pct \<le> (d_price \<lparr>d_symbol = ''ETH'', d_price = 12\<rparr>
      - entry_price \<lparr>p_quantity = 2, entry_price = 10, entry_time = ''2026-10-20T09:00:00'',
           trade_id = ''t-0'', market_type = ''crypto''\<rparr>)
      / entry_price \<lparr>p_quantity = 2, entry_price = 10, entry_time = ''2026-10-20T09:00:00'',
           trade_id = ''t-0'', market_type = ''crypto''\<rparr>"
    using eth_eligible(6) by simp
  have calm: "\<forall>i. \<not> put_item_raises calm_env i" by (simp add: calm_env_def)
  have empty: "sells_of ''ETH'' (trading_table eth_holder) = []"
    by (simp add: eth_holder_def sells_of_def)
  from phase_ordering[OF eth_eligible(1) mem eth_eligible(2,3,4,5) nz tp calm] empty
  have "length (sells_of ''ETH'' (trading_table
       (snd (trading_phases calm_env session_quotes [] [eth_sell_signal, btc_buy_signal]
          eth_holder)))) = 1 \<and>
   \<not> holds (portfolio (snd (phase1_exits calm_env [eth_sell_signal, btc_buy_signal]
          (0, eth_holder)))) ''ETH''"
    by auto
  with eth_eligible calm show ?thesis by simp
qed

text \<open>
  With a ledger that rejects every write, the same session closes ETH in phase 1,
  opens BTC in phase 2 and stores nothing.
\<close>

lemma eth_exit_unrecorded:
  "execute_trade failing_env eth_sell_signal eth_holder =
     (False, \<lparr>portfolio = [], wallet_balance = 54, trading_table = [], tick = Suc 0\<rparr>)"
  by (simp add: execute_trade_def Let_def holds_def failing_env_def calm_env_def
      eth_sell_signal_def eth_holder_def)

lemma btc_entry_unrecorded:
  "execute_trade failing_env btc_buy_signal
      \<lparr>portfolio = [], wallet_balance = 54, trading_table = [], tick = Suc 0\<rparr> =
     (False, \<lparr>portfolio = [(''BTC'', \<lparr>p_quantity = 864 / 4500000, entry_price = 45000,
                      entry_time = ''2026-11-01T00:00:00'', trade_id = ''id-x'',
                      market_type = ''crypto''\<rparr>)],
        wallet_balance = 4536 / 100, trading_table = [], tick = 2\<rparr>)"
  by (simp add: execute_trade_def Let_def holds_def failing_env_def calm_env_def
      btc_buy_signal_def max_position_size_def)

lemma failing_session:
  "trading_phases failing_env session_quotes [] [eth_sell_signal, btc_buy_signal] eth_holder =
     (Inr 0, \<lparr>portfolio = [(''BTC'', \<lparr>p_quantity = 864 / 4500000, entry_price = 45000,
                      entry_time = ''2026-11-01T00:00:00'', trade_id = ''id-x'',
                      market_type = ''crypto''\<rparr>)],
        wallet_balance = 4536 / 100, trading_table = [], tick = 2\<rparr>)"
proof -
  let ?s1 = "\<lparr>portfolio = [], wallet_balance = 54, trading_table = [], tick = Suc 0\<rparr>"
  have c1: "holds (portfolio eth_holder) (p_symbol eth_sell_signal)"
    "signal eth_sell_signal = SELL" "min_confidence \<le> confidence eth_sell_signal"
    by (simp_all add: holds_def eth_holder_def eth_sell_signal_def min_confidence_def)
  have c2: "signal btc_buy_signal = BUY" by (simp add: btc_buy_signal_def)
  have p1: "phase1_exits failing_env [eth_sell_signal, btc_buy_signal] (0, eth_holder) = (0, ?s1)"
    by (simp add: c1 c2 eth_exit_unrecorded)
  have ce: "check_exit_conditions failing_env session_quotes [] ?s1 = Inr ?s1"
    by (simp add: check_exit_conditions_def)
  have st1: "\<not> should_trade eth_sell_signal ?s1"
    by (simp add: should_trade_def c1(2))
  have st2: "should_trade btc_buy_signal ?s1"
    by (simp add: should_trade_def btc_buy_signal_def min_confidence_def max_position_size_def
        holds_def)
  have p2: "phase2_entries failing_env [eth_sell_signal, btc_buy_signal] (0, ?s1) =
     (0, \<lparr>portfolio = [(''BTC'', \<lparr>p_quantity = 864 / 4500000, entry_price = 45000,
                      entry_time = ''2026-11-01T00:00:00'', trade_id = ''id-x'',
                      market_type = ''crypto''\<rparr>)],
        wallet_balance = 4536 / 100, trading_table = [], tick = 2\<rparr>)"
    by (simp add: st1 st2 btc_entry_unrecorded)
  show ?thesis
    by (simp only: trading_phases_def p1 ce p2 prod.case sum.case)
qed

end
